theory Spec2Isabelle
  imports Main
begin

section \<open>OFFAT utils: loading specification documents and handling URLs\<close>

text \<open>
  The module \<^verbatim>\<open>offat/utils.py\<close> is embedded function by function. Python strings are
  \<^typ>\<open>string\<close> (one \<^typ>\<open>char\<close> per code point, so code points below 256 are covered),
  Python integers are \<^typ>\<open>int\<close>, and an exception is the left summand of a result.
\<close>

subsection \<open>Exceptions and values\<close>

datatype io_error = PermissionError | UnicodeDecodeError | OtherOSError string

datatype error =
    ValueError string
  | TypeError string
  | IndexError string
  | AttributeError string
  | RecursionError string
  | JSONDecodeError
  | YAMLError
  | IOError io_error

text \<open>
  What \<^verbatim>\<open>json.loads\<close> and \<^verbatim>\<open>yaml.safe_load\<close> build. Scalars that the loaders never
  look into (floats, dates) are kept as \<open>PyOther\<close> with their printed form. A dict is an
  association list in insertion order.
\<close>

datatype pyvalue =
    PyNone
  | PyBool bool
  | PyInt int
  | PyStr string
  | PyOther string
  | PyList "pyvalue list"
  | PyDict "(pyvalue \<times> pyvalue) list"

text \<open>The dict \<^verbatim>\<open>{'error': msg}\<close> that the loaders return instead of raising.\<close>

definition error_record :: "string \<Rightarrow> pyvalue" where
  "error_record msg = PyDict [(PyStr ''error'', PyStr msg)]"

subsection \<open>String and list primitives of Python\<close>

text \<open>\<^verbatim>\<open>s.split(sep)\<close> for a separator of one character: never an empty list.\<close>

fun split_on :: "char \<Rightarrow> string \<Rightarrow> string list" where
  "split_on sep [] = [[]]"
| "split_on sep (c # cs) =
     (if c = sep then [] # split_on sep cs
      else (case split_on sep cs of
              [] \<Rightarrow> [[c]]
            | w # ws \<Rightarrow> (c # w) # ws))"

text \<open>
  \<^verbatim>\<open>xs[i]\<close>: a negative index counts from the end, and an index outside the list raises
  \<^verbatim>\<open>IndexError\<close>.
\<close>

definition py_index :: "'a list \<Rightarrow> int \<Rightarrow> error + 'a" where
  "py_index xs i =
     (if 0 \<le> i \<and> i < int (length xs) then Inr (xs ! nat i)
      else if i < 0 \<and> - i \<le> int (length xs) then Inr (xs ! nat (int (length xs) + i))
      else Inl (IndexError ''list index out of range''))"

text \<open>The same on a tuple, whose \<^verbatim>\<open>IndexError\<close> names the tuple.\<close>

definition tuple_index :: "'a list \<Rightarrow> int \<Rightarrow> error + 'a" where
  "tuple_index xs i =
     (if 0 \<le> i \<and> i < int (length xs) then Inr (xs ! nat i)
      else if i < 0 \<and> - i \<le> int (length xs) then Inr (xs ! nat (int (length xs) + i))
      else Inl (IndexError ''tuple index out of range''))"

subsection \<open>The file system and the two deserializers\<close>

text \<open>
  A file system maps a path to what is there. The text of a regular file is what
  \<^verbatim>\<open>open(path, 'r', encoding='utf-8')\<close> followed by \<^verbatim>\<open>f.read()\<close> gives; a regular file
  that cannot be opened or decoded is \<open>Unreadable\<close> with the exception raised.
  The file system does not change between the calls of one load.
\<close>

datatype fsnode = Directory | RegularFile string | Unreadable io_error

type_synonym filesystem = "string \<rightharpoonup> fsnode"

text \<open>
  \<^verbatim>\<open>os.path.isfile\<close>: \<^verbatim>\<open>os.stat\<close> fails on the empty path whatever the file system
  holds, which \<^verbatim>\<open>isfile\<close> turns into \<^verbatim>\<open>False\<close>; on \<^verbatim>\<open>None\<close> it raises
  \<^verbatim>\<open>TypeError\<close>, which \<^verbatim>\<open>isfile\<close> does not catch.
\<close>

definition isfile :: "filesystem \<Rightarrow> string option \<Rightarrow> error + bool" where
  "isfile fs file_path =
     (case file_path of
        None \<Rightarrow> Inl (TypeError ''stat: path should be string, bytes, os.PathLike or integer, not NoneType'')
      | Some p \<Rightarrow>
          Inr (p \<noteq> [] \<and> (case fs p of
                               Some (RegularFile _) \<Rightarrow> True
                             | Some (Unreadable _) \<Rightarrow> True
                             | _ \<Rightarrow> False)))"

definition open_read :: "filesystem \<Rightarrow> string \<Rightarrow> error + string" where
  "open_read fs p =
     (case fs p of
        Some (RegularFile content) \<Rightarrow> Inr content
      | Some (Unreadable e) \<Rightarrow> Inl (IOError e)
      | Some Directory \<Rightarrow> Inl (IOError (OtherOSError ''IsADirectoryError''))
      | None \<Rightarrow> Inl (IOError (OtherOSError ''FileNotFoundError'')))"

text \<open>
  \<^verbatim>\<open>json.loads\<close> and \<^verbatim>\<open>yaml.safe_load\<close> are libraries outside the repository: the
  loaders take them as parameters, functions from the text to the value built or the
  exception raised.
\<close>

type_synonym deserializer = "string \<Rightarrow> error + pyvalue"

definition read_yaml :: "filesystem \<Rightarrow> deserializer \<Rightarrow> string option \<Rightarrow> error + pyvalue" where
  "read_yaml fs safe_load file_path =
     (case file_path of
        None \<Rightarrow> Inr (error_record ''ValueError, path cannot be of None type'')
      | Some p \<Rightarrow>
          if p = [] then Inr (error_record ''ValueError, path cannot be of None type'')
          else (case isfile fs file_path of
                  Inl e \<Rightarrow> Inl e
                | Inr False \<Rightarrow> Inr (error_record ''File Not Found'')
                | Inr True \<Rightarrow>
                    (case open_read fs p of
                       Inl e \<Rightarrow> Inl e
                     | Inr content \<Rightarrow>
                         (case safe_load content of
                            Inl YAMLError \<Rightarrow> Inr (error_record ''YAML error'')
                          | Inl e \<Rightarrow> Inl e
                          | Inr v \<Rightarrow> Inr v))))"

definition read_json :: "filesystem \<Rightarrow> deserializer \<Rightarrow> string option \<Rightarrow> error + pyvalue" where
  "read_json fs json_load file_path =
     (case isfile fs file_path of
        Inl e \<Rightarrow> Inl e
      | Inr False \<Rightarrow> Inr (error_record ''File Not Found'')
      | Inr True \<Rightarrow>
          (case file_path of
             None \<Rightarrow> Inl (TypeError ''expected str, bytes or os.PathLike object, not NoneType'')
           | Some p \<Rightarrow>
               (case open_read fs p of
                  Inl e \<Rightarrow> Inl e
                | Inr content \<Rightarrow>
                    (case json_load content of
                       Inl JSONDecodeError \<Rightarrow> Inr (error_record ''JSON error'')
                     | Inl e \<Rightarrow> Inl e
                     | Inr v \<Rightarrow> Inr v))))"

definition read_openapi_file ::
  "filesystem \<Rightarrow> deserializer \<Rightarrow> deserializer \<Rightarrow> string option \<Rightarrow> error + pyvalue" where
  "read_openapi_file fs json_load safe_load file_path =
     (case isfile fs file_path of
        Inl e \<Rightarrow> Inl e
      | Inr False \<Rightarrow> Inr (error_record ''File Not Found'')
      | Inr True \<Rightarrow>
          (case file_path of
             None \<Rightarrow> Inl (AttributeError ''NoneType object has no attribute split'')
           | Some p \<Rightarrow>
               (case py_index (split_on CHR ''.'' p) (- 1) of
                  Inl e \<Rightarrow> Inl e
                | Inr file_ext \<Rightarrow>
                    if file_ext = ''json'' then read_json fs json_load file_path
                    else if file_ext = ''yaml'' then read_yaml fs safe_load file_path
                    else Inr (error_record ''Invalid file extension''))))"

subsection \<open>Character classes\<close>

definition code :: "char \<Rightarrow> nat" where
  "code c = of_char c"

definition ascii_digit :: "char \<Rightarrow> bool" where
  "ascii_digit c = (48 \<le> code c \<and> code c \<le> 57)"

definition ascii_lower :: "char \<Rightarrow> bool" where
  "ascii_lower c = (97 \<le> code c \<and> code c \<le> 122)"

definition ascii_upper :: "char \<Rightarrow> bool" where
  "ascii_upper c = (65 \<le> code c \<and> code c \<le> 90)"

definition hex_digit :: "char \<Rightarrow> bool" where
  "hex_digit c = (ascii_digit c \<or> (97 \<le> code c \<and> code c \<le> 102) \<or> (65 \<le> code c \<and> code c \<le> 70))"

text \<open>\<^verbatim>\<open>str.lower\<close> on one ASCII character.\<close>

definition lower_char :: "char \<Rightarrow> char" where
  "lower_char c = (if ascii_upper c then char_of (code c + 32) else c)"

subsection \<open>The built-in \<^verbatim>\<open>int\<close> on a string\<close>

text \<open>
  \<^verbatim>\<open>int(s)\<close> in base ten, as CPython 3.11 computes it: white space around the number is
  dropped, one sign may lead, single underscores may stand between digits, and a number
  of more than 4300 digits is refused (the default of \<^verbatim>\<open>sys.get_int_max_str_digits\<close>).
  \<open>None\<close> is the \<^verbatim>\<open>ValueError\<close>. Among the code points below 256 the decimal digits are
  \<^verbatim>\<open>0\<close> to \<^verbatim>\<open>9\<close>, and the white space is tab, line feed, vertical tab, form feed,
  carriage return, space, U+0085 and U+00A0.
\<close>

definition int_space :: "char \<Rightarrow> bool" where
  "int_space c = (code c \<in> {9, 10, 11, 12, 13, 32, 133, 160})"

definition int_max_str_digits :: nat where
  "int_max_str_digits = 4300"

fun digits_value :: "int \<Rightarrow> bool \<Rightarrow> string \<Rightarrow> int option" where
  "digits_value acc after_digit [] = (if after_digit then Some acc else None)"
| "digits_value acc after_digit (c # cs) =
     (if ascii_digit c then digits_value (10 * acc + (int (code c) - 48)) True cs
      else if c = CHR ''_'' \<and> after_digit then digits_value acc False cs
      else None)"

definition int_str :: "string \<Rightarrow> int option" where
  "int_str s =
     (let t = rev (dropWhile int_space (rev (dropWhile int_space s)));
          negative = (take 1 t = ''-'');
          body = (if take 1 t = ''-'' \<or> take 1 t = ''+'' then drop 1 t else t)
      in if int_max_str_digits < length (filter (\<lambda>c. c \<noteq> CHR ''_'') body) then None
         else (case digits_value 0 False body of
                 None \<Rightarrow> None
               | Some n \<Rightarrow> Some (if negative then - n else n)))"

subsection \<open>\<^verbatim>\<open>ipaddress.ip_address\<close>, as far as \<^verbatim>\<open>urlsplit\<close> needs it\<close>

definition parse_octet_ok :: "string \<Rightarrow> bool" where
  "parse_octet_ok s =
     (s \<noteq> [] \<and> list_all ascii_digit s \<and> length s \<le> 3
      \<and> \<not> (s \<noteq> ''0'' \<and> take 1 s = ''0'')
      \<and> (case digits_value 0 False s of None \<Rightarrow> False | Some n \<Rightarrow> n \<le> 255))"

definition IPv4Address_ok :: "string \<Rightarrow> bool" where
  "IPv4Address_ok s =
     (CHR ''/'' \<notin> set s \<and> s \<noteq> []
      \<and> length (split_on CHR ''.'' s) = 4 \<and> list_all parse_octet_ok (split_on CHR ''.'' s))"

definition parse_hextet_ok :: "string \<Rightarrow> bool" where
  "parse_hextet_ok s = (list_all hex_digit s \<and> length s \<le> 4 \<and> s \<noteq> [])"

text \<open>
  \<^verbatim>\<open>IPv6Address._ip_int_from_string\<close>, keeping what decides whether it raises. An IPv4
  suffix is replaced by its two hextets, which are always well formed; they are written
  \<^verbatim>\<open>0\<close> here since only their number and form matter.
\<close>

definition ipv6_parts_ok :: "string list \<Rightarrow> bool" where
  "ipv6_parts_ok parts =
     (let n = length parts;
          skips = filter (\<lambda>i. parts ! i = []) [1 ..< n - 1]
      in if n > 9 then False
         else if length skips > 1 then False
         else if length skips = 1 then
           (let skip_index = hd skips;
                hi0 = skip_index;
                lo0 = n - skip_index - 1;
                hi = (if hd parts = [] then hi0 - 1 else hi0);
                lo = (if last parts = [] then lo0 - 1 else lo0)
            in \<not> (hd parts = [] \<and> hi \<noteq> 0)
               \<and> \<not> (last parts = [] \<and> lo \<noteq> 0)
               \<and> hi + lo < 8
               \<and> list_all parse_hextet_ok (take hi parts)
               \<and> list_all parse_hextet_ok (drop (n - lo) parts))
         else n = 8 \<and> hd parts \<noteq> [] \<and> last parts \<noteq> [] \<and> list_all parse_hextet_ok parts)"

definition IPv6Address_ok :: "string \<Rightarrow> bool" where
  "IPv6Address_ok s =
     (if CHR ''/'' \<in> set s then False
      else
        (let addr = takeWhile (\<lambda>c. c \<noteq> CHR ''%'') s;
             scope_id = drop (length addr + 1) s
         in if CHR ''%'' \<in> set s \<and> (scope_id = [] \<or> CHR ''%'' \<in> set scope_id) then False
            else if addr = [] then False
            else
              (let parts = split_on CHR '':'' addr in
                 if length parts < 3 then False
                 else if CHR ''.'' \<in> set (last parts) then
                   IPv4Address_ok (last parts) \<and> ipv6_parts_ok (butlast parts @ [''0'', ''0''])
                 else ipv6_parts_ok parts)))"

text \<open>
  \<^verbatim>\<open>_check_bracketed_host\<close>: the message of the \<^verbatim>\<open>ValueError\<close> it raises, if any. The
  pattern for an IPvFuture host is \<^verbatim>\<open>\Av[a-fA-F0-9]+\..+\Z\<close>. The message of
  \<^verbatim>\<open>ip_address\<close> is kept without the host it quotes.
\<close>

definition check_bracketed_host :: "string \<Rightarrow> string option" where
  "check_bracketed_host hostname =
     (if take 1 hostname = ''v'' then
        (let hexes = takeWhile hex_digit (drop 1 hostname);
             rest = dropWhile hex_digit (drop 1 hostname)
         in if hexes \<noteq> [] \<and> take 1 rest = ''.'' \<and> drop 1 rest \<noteq> []
               \<and> CHR 0x0A \<notin> set (drop 1 rest)
            then None
            else Some ''IPvFuture address is invalid'')
      else if IPv4Address_ok hostname then Some ''An IPv4 address cannot be in brackets''
      else if IPv6Address_ok hostname then None
      else Some ''does not appear to be an IPv4 or IPv6 address'')"

subsection \<open>\<^verbatim>\<open>urllib.parse\<close>\<close>

definition uses_relative :: "string list" where
  "uses_relative = ['''', ''ftp'', ''http'', ''gopher'', ''nntp'', ''imap'',
     ''wais'', ''file'', ''https'', ''shttp'', ''mms'',
     ''prospero'', ''rtsp'', ''rtsps'', ''rtspu'', ''sftp'',
     ''svn'', ''svn+ssh'', ''ws'', ''wss'']"

definition uses_netloc :: "string list" where
  "uses_netloc = ['''', ''ftp'', ''http'', ''gopher'', ''nntp'', ''telnet'',
     ''imap'', ''wais'', ''file'', ''mms'', ''https'', ''shttp'',
     ''snews'', ''prospero'', ''rtsp'', ''rtsps'', ''rtspu'', ''rsync'',
     ''svn'', ''svn+ssh'', ''sftp'', ''nfs'', ''git'', ''git+ssh'',
     ''ws'', ''wss'']"

definition uses_params :: "string list" where
  "uses_params = ['''', ''ftp'', ''hdl'', ''prospero'', ''http'', ''imap'',
     ''https'', ''shttp'', ''rtsp'', ''rtsps'', ''rtspu'', ''sip'',
     ''sips'', ''mms'', ''sftp'', ''tel'']"

definition scheme_char :: "char \<Rightarrow> bool" where
  "scheme_char c = (ascii_lower c \<or> ascii_upper c \<or> ascii_digit c \<or> c \<in> set ''+-.'')"

text \<open>The characters of \<^verbatim>\<open>_WHATWG_C0_CONTROL_OR_SPACE\<close> and of \<^verbatim>\<open>_UNSAFE_URL_BYTES_TO_REMOVE\<close>.\<close>

definition c0_control_or_space :: "char \<Rightarrow> bool" where
  "c0_control_or_space c = (code c \<le> 32)"

definition unsafe_url_byte :: "char \<Rightarrow> bool" where
  "unsafe_url_byte c = (code c \<in> {9, 13, 10})"

text \<open>\<^verbatim>\<open>s.split(sep, 1)\<close> where \<^verbatim>\<open>sep\<close> occurs in \<^verbatim>\<open>s\<close>, and \<^verbatim>\<open>s.partition(sep)\<close> at its ends.\<close>

definition before_first :: "char \<Rightarrow> string \<Rightarrow> string" where
  "before_first sep s = takeWhile (\<lambda>c. c \<noteq> sep) s"

definition after_first :: "char \<Rightarrow> string \<Rightarrow> string" where
  "after_first sep s = drop 1 (dropWhile (\<lambda>c. c \<noteq> sep) s)"

text \<open>
  \<^verbatim>\<open>urlsplit(url, scheme)\<close> of CPython 3.11 with \<^verbatim>\<open>allow_fragments=True\<close>; the result is the
  tuple (scheme, netloc, path, query, fragment). \<^verbatim>\<open>_checknetloc\<close> is left out: it only
  looks at a netloc that is not ASCII, and for code points below 256 the NFKC form never
  holds one of the characters it rejects.
\<close>

type_synonym SplitResult = "string \<times> string \<times> string \<times> string \<times> string"

definition splitnetloc :: "string \<Rightarrow> string \<times> string" where
  "splitnetloc url =
     (takeWhile (\<lambda>c. c \<notin> set ''/?#'') (drop 2 url), dropWhile (\<lambda>c. c \<notin> set ''/?#'') (drop 2 url))"

definition split_query_fragment :: "string \<Rightarrow> string \<times> string \<times> string" where
  "split_query_fragment url =
     (let fragment = (if CHR ''#'' \<in> set url then after_first CHR ''#'' url else []);
          url1 = (if CHR ''#'' \<in> set url then before_first CHR ''#'' url else url);
          query = (if CHR ''?'' \<in> set url1 then after_first CHR ''?'' url1 else []);
          url2 = (if CHR ''?'' \<in> set url1 then before_first CHR ''?'' url1 else url1)
      in (url2, query, fragment))"

definition urlsplit :: "string \<Rightarrow> string \<Rightarrow> error + SplitResult" where
  "urlsplit url0 scheme0 =
     (let url1 = filter (\<lambda>c. \<not> unsafe_url_byte c) (dropWhile c0_control_or_space url0);
          scheme1 = filter (\<lambda>c. \<not> unsafe_url_byte c)
                      (rev (dropWhile c0_control_or_space
                         (rev (dropWhile c0_control_or_space scheme0))));
          head = before_first CHR '':'' url1;
          found = (CHR '':'' \<in> set url1 \<and> head \<noteq> []
                   \<and> (ascii_lower (hd url1) \<or> ascii_upper (hd url1))
                   \<and> list_all scheme_char head);
          sch = (if found then map lower_char head else scheme1);
          url2 = (if found then drop (length head + 1) url1 else url1)
      in if take 2 url2 = ''//'' then
           (let netloc = fst (splitnetloc url2);
                url3 = snd (splitnetloc url2)
            in if (CHR ''['' \<in> set netloc \<and> CHR '']'' \<notin> set netloc)
                  \<or> (CHR '']'' \<in> set netloc \<and> CHR ''['' \<notin> set netloc)
               then Inl (ValueError ''Invalid IPv6 URL'')
               else if CHR ''['' \<in> set netloc \<and> CHR '']'' \<in> set netloc then
                 (case check_bracketed_host
                         (before_first CHR '']'' (after_first CHR ''['' netloc)) of
                    Some msg \<Rightarrow> Inl (ValueError msg)
                  | None \<Rightarrow>
                      (case split_query_fragment url3 of
                         (p, q, f) \<Rightarrow> Inr (sch, netloc, p, q, f)))
               else
                 (case split_query_fragment url3 of
                    (p, q, f) \<Rightarrow> Inr (sch, netloc, p, q, f)))
         else
           (case split_query_fragment url2 of
              (p, q, f) \<Rightarrow> Inr (sch, [], p, q, f)))"

record ParseResult =
  scheme :: string
  netloc :: string
  path :: string
  params :: string
  query :: string
  fragment :: string

text \<open>\<^verbatim>\<open>_splitparams\<close>, called only when \<^verbatim>\<open>;\<close> occurs in the path.\<close>

definition splitparams :: "string \<Rightarrow> string \<times> string" where
  "splitparams url =
     (if CHR ''/'' \<in> set url then
        (let last_seg = rev (takeWhile (\<lambda>c. c \<noteq> CHR ''/'') (rev url));
             dir = take (length url - length last_seg) url
         in if CHR '';'' \<in> set last_seg
            then (dir @ before_first CHR '';'' last_seg, after_first CHR '';'' last_seg)
            else (url, []))
      else (before_first CHR '';'' url, after_first CHR '';'' url))"

definition urlparse :: "string \<Rightarrow> string \<Rightarrow> error + ParseResult" where
  "urlparse url scheme0 =
     (case urlsplit url scheme0 of
        Inl e \<Rightarrow> Inl e
      | Inr (sch, nl, p, q, f) \<Rightarrow>
          if sch \<in> set uses_params \<and> CHR '';'' \<in> set p
          then Inr \<lparr>scheme = sch, netloc = nl, path = fst (splitparams p),
                    params = snd (splitparams p), query = q, fragment = f\<rparr>
          else Inr \<lparr>scheme = sch, netloc = nl, path = p, params = [], query = q, fragment = f\<rparr>)"

definition urlunsplit :: "SplitResult \<Rightarrow> string" where
  "urlunsplit components =
     (case components of (sch, nl, url, q, f) \<Rightarrow>
        (let url1 = (if nl \<noteq> [] \<or> (sch \<noteq> [] \<and> sch \<in> set uses_netloc) \<or> take 2 url = ''//''
                     then ''//'' @ nl @ (if url \<noteq> [] \<and> take 1 url \<noteq> ''/'' then ''/'' @ url else url)
                     else url);
             url2 = (if sch \<noteq> [] then sch @ '':'' @ url1 else url1);
             url3 = (if q \<noteq> [] then url2 @ ''?'' @ q else url2)
         in if f \<noteq> [] then url3 @ ''#'' @ f else url3))"

definition urlunparse :: "ParseResult \<Rightarrow> string" where
  "urlunparse r =
     urlunsplit (scheme r, netloc r,
                 (if params r \<noteq> [] then path r @ '';'' @ params r else path r),
                 query r, fragment r)"

text \<open>The loop of \<^verbatim>\<open>urljoin\<close> over the path segments, with \<^verbatim>\<open>resolved_path\<close> as accumulator.\<close>

fun resolve_segments :: "string list \<Rightarrow> string list \<Rightarrow> string list" where
  "resolve_segments resolved_path [] = resolved_path"
| "resolve_segments resolved_path (seg # segs) =
     (if seg = ''..'' then resolve_segments (butlast resolved_path) segs
      else if seg = ''.'' then resolve_segments resolved_path segs
      else resolve_segments (resolved_path @ [seg]) segs)"

text \<open>\<^verbatim>\<open>'/'.join(parts)\<close>.\<close>

fun join_slash :: "string list \<Rightarrow> string" where
  "join_slash [] = []"
| "join_slash [p] = p"
| "join_slash (p # q # ps) = p @ ''/'' @ join_slash (q # ps)"

text \<open>\<^verbatim>\<open>segments[1:-1] = filter(None, segments[1:-1])\<close>.\<close>

definition drop_inner_empty :: "string list \<Rightarrow> string list" where
  "drop_inner_empty segments =
     (if length segments < 2 then segments
      else hd segments # filter (\<lambda>s. s \<noteq> []) (butlast (tl segments)) @ [last segments])"

definition urljoin :: "string \<Rightarrow> string \<Rightarrow> error + string" where
  "urljoin base url =
     (if base = [] then Inr url
      else if url = [] then Inr base
      else
        (case urlparse base [] of
           Inl e \<Rightarrow> Inl e
         | Inr b \<Rightarrow>
             (case urlparse url (scheme b) of
                Inl e \<Rightarrow> Inl e
              | Inr u \<Rightarrow>
                  if scheme u \<noteq> scheme b \<or> scheme u \<notin> set uses_relative then Inr url
                  else if scheme u \<in> set uses_netloc \<and> netloc u \<noteq> [] then Inr (urlunparse u)
                  else
                    (let nl = (if scheme u \<in> set uses_netloc then netloc b else netloc u) in
                       if path u = [] \<and> params u = [] then
                         Inr (urlunparse (u\<lparr>netloc := nl, path := path b, params := params b,
                                query := (if query u = [] then query b else query u)\<rparr>))
                       else
                         (let base_parts0 = split_on CHR ''/'' (path b);
                              base_parts = (if last base_parts0 \<noteq> [] then butlast base_parts0
                                            else base_parts0);
                              segments = (if take 1 (path u) = ''/''
                                          then split_on CHR ''/'' (path u)
                                          else drop_inner_empty
                                                 (base_parts @ split_on CHR ''/'' (path u)));
                              resolved0 = resolve_segments [] segments;
                              resolved_path = (if last segments = ''.'' \<or> last segments = ''..''
                                               then resolved0 @ [[]] else resolved0);
                              joined = join_slash resolved_path
                          in Inr (urlunparse (u\<lparr>netloc := nl,
                                    path := (if joined = [] then ''/'' else joined)\<rparr>)))))))"

subsection \<open>Regular expressions of the \<^verbatim>\<open>re\<close> module\<close>

text \<open>
  The fragment of \<^verbatim>\<open>re\<close> that the pattern of \<^verbatim>\<open>is_valid_url\<close> uses. An item of a character
  set is one character, a range, the class \<^verbatim>\<open>\d\<close> (below code point 256: \<^verbatim>\<open>0\<close> to
  \<^verbatim>\<open>9\<close>) or the dot, which matches everything but a line feed.
\<close>

datatype char_item = One char | Range char char | DecimalDigit | Dot

fun item_matches :: "char_item \<Rightarrow> char \<Rightarrow> bool" where
  "item_matches (One d) c = (c = d)"
| "item_matches (Range lo hi) c = (code lo \<le> code c \<and> code c \<le> code hi)"
| "item_matches DecimalDigit c = ascii_digit c"
| "item_matches Dot c = (c \<noteq> CHR 0x0A)"

datatype regex =
    Fail
  | Eps
  | Sym "char_item list"
  | Cat regex regex
  | Or regex regex
  | Many regex

text \<open>The postfix operators \<^verbatim>\<open>?\<close>, \<^verbatim>\<open>+\<close> and \<^verbatim>\<open>{m,n}\<close>, and a literal text.\<close>

definition Opt :: "regex \<Rightarrow> regex" where
  "Opt r = Or r Eps"

definition Plus :: "regex \<Rightarrow> regex" where
  "Plus r = Cat r (Many r)"

fun at_most :: "nat \<Rightarrow> regex \<Rightarrow> regex" where
  "at_most 0 r = Eps"
| "at_most (Suc n) r = Opt (Cat r (at_most n r))"

fun exactly :: "nat \<Rightarrow> regex \<Rightarrow> regex" where
  "exactly 0 r = Eps"
| "exactly (Suc n) r = Cat r (exactly n r)"

definition between :: "nat \<Rightarrow> nat \<Rightarrow> regex \<Rightarrow> regex" where
  "between m n r = Cat (exactly m r) (at_most (n - m) r)"

fun Lit :: "string \<Rightarrow> regex" where
  "Lit [] = Eps"
| "Lit (c # cs) = Cat (Sym [One c]) (Lit cs)"

fun nullable :: "regex \<Rightarrow> bool" where
  "nullable Fail = False"
| "nullable Eps = True"
| "nullable (Sym items) = False"
| "nullable (Cat r s) = (nullable r \<and> nullable s)"
| "nullable (Or r s) = (nullable r \<or> nullable s)"
| "nullable (Many r) = True"

fun deriv :: "char \<Rightarrow> regex \<Rightarrow> regex" where
  "deriv c Fail = Fail"
| "deriv c Eps = Fail"
| "deriv c (Sym items) = (if list_ex (\<lambda>i. item_matches i c) items then Eps else Fail)"
| "deriv c (Cat r s) =
     (if nullable r then Or (Cat (deriv c r) s) (deriv c s) else Cat (deriv c r) s)"
| "deriv c (Or r s) = Or (deriv c r) (deriv c s)"
| "deriv c (Many r) = Cat (deriv c r) (Many r)"

text \<open>
  \<^verbatim>\<open>bool(re.match(pattern, s))\<close>: some prefix of \<^verbatim>\<open>s\<close>, starting at its first character,
  matches the pattern.
\<close>

fun re_match :: "regex \<Rightarrow> string \<Rightarrow> bool" where
  "re_match r [] = nullable r"
| "re_match r (c # cs) = (nullable r \<or> re_match (deriv c r) cs)"

subsection \<open>\<^verbatim>\<open>is_valid_url\<close>\<close>

text \<open>
  The pattern
  \<^verbatim>\<open>https?:\/\/([a-z.-]|\d{1,3}\.\d{1,3}\.\d{1,3}\.\d{1,3})+(:\d+)?.*\<close>
  piece by piece.
\<close>

definition host_char_set :: regex where
  "host_char_set = Sym [Range CHR ''a'' CHR ''z'', One CHR ''.'', One CHR ''-'']"

definition digits_1_3 :: regex where
  "digits_1_3 = between 1 3 (Sym [DecimalDigit])"

definition dotted_quad :: regex where
  "dotted_quad =
     Cat digits_1_3 (Cat (Lit ''.'') (Cat digits_1_3 (Cat (Lit ''.'')
       (Cat digits_1_3 (Cat (Lit ''.'') digits_1_3)))))"

definition url_regex :: regex where
  "url_regex =
     Cat (Lit ''http'') (Cat (Opt (Lit ''s'')) (Cat (Lit ''://'')
       (Cat (Plus (Or host_char_set dotted_quad))
         (Cat (Opt (Cat (Lit '':'') (Plus (Sym [DecimalDigit]))))
           (Many (Sym [Dot]))))))"

definition is_valid_url :: "string \<Rightarrow> bool" where
  "is_valid_url url = re_match url_regex url"

subsection \<open>\<^verbatim>\<open>parse_server_url\<close>\<close>

text \<open>
  The result is the tuple (scheme, host, port, basepath). The message that the function
  logs when the port token is not an integer is not part of the result and is left out.
\<close>

definition parse_server_url :: "string \<Rightarrow> error + (string \<times> string \<times> int \<times> string)" where
  "parse_server_url url =
     (case urlparse url [] of
        Inl e \<Rightarrow> Inl e
      | Inr parsed_url \<Rightarrow>
          (let default_port = (if scheme parsed_url = ''https'' then 443 else 80);
               host_port =
                 (if CHR '':'' \<in> set (netloc parsed_url) then
                    (let tokens = split_on CHR '':'' (netloc parsed_url) in
                       case py_index tokens 0 of
                         Inl e \<Rightarrow> Inl e
                       | Inr host \<Rightarrow>
                           (case py_index tokens 1 of
                              Inl e \<Rightarrow> Inl e
                            | Inr token \<Rightarrow>
                                (case int_str token of
                                   Some port \<Rightarrow> Inr (host, port)
                                 | None \<Rightarrow> Inr (host, default_port))))
                  else Inr (netloc parsed_url, default_port))
           in case host_port of
                Inl e \<Rightarrow> Inl e
              | Inr (host, port) \<Rightarrow>
                  if scheme parsed_url \<notin> set [''http'', ''https'']
                  then Inl (ValueError ''only http and https schemes are allowed'')
                  else Inr (scheme parsed_url, host, port, path parsed_url)))"

subsection \<open>\<^verbatim>\<open>join_uri_path\<close>\<close>

definition endswith_slash :: "string \<Rightarrow> bool" where
  "endswith_slash url = (url \<noteq> [] \<and> last url = CHR ''/'')"

definition removeprefix :: "string \<Rightarrow> string \<Rightarrow> string" where
  "removeprefix prefix s = (if take (length prefix) s = prefix then drop (length prefix) s else s)"

text \<open>The loop over \<^verbatim>\<open>args[1:]\<close>, with the running \<^verbatim>\<open>url\<close> as accumulator.\<close>

fun join_loop :: "string \<Rightarrow> string \<Rightarrow> string list \<Rightarrow> error + string" where
  "join_loop remove_prefix url [] = Inr url"
| "join_loop remove_prefix url (uri # uris) =
     (case urljoin (if endswith_slash url then url else url @ ''/'')
                   (removeprefix remove_prefix uri) of
        Inl e \<Rightarrow> Inl e
      | Inr url' \<Rightarrow> join_loop remove_prefix url' uris)"

text \<open>
  \<^verbatim>\<open>join_uri_path\<close> on the tuple of its positional arguments and \<^verbatim>\<open>remove_prefix\<close>; the
  keyword argument has the default \<^verbatim>\<open>'/'\<close>, which a caller of the model passes itself.
\<close>

definition join_uri_path :: "string list \<Rightarrow> string \<Rightarrow> error + string" where
  "join_uri_path args remove_prefix =
     (case tuple_index args 0 of
        Inl e \<Rightarrow> Inl e
      | Inr url \<Rightarrow>
          join_loop remove_prefix (if endswith_slash url then url else url @ ''/'') (drop 1 args))"

subsection \<open>A small file system for the examples\<close>

text \<open>
  The two example deserializers give what \<^verbatim>\<open>json.loads\<close> and \<^verbatim>\<open>yaml.safe_load\<close> give
  on the texts stored in the \<^verbatim>\<open>.json\<close> and \<^verbatim>\<open>.yaml\<close> files of \<open>example_fs\<close>, the only
  texts they are applied to. A JSON document that is one unsigned integer is converted
  by \<^verbatim>\<open>json.loads\<close> with \<^verbatim>\<open>int\<close>, whose \<^verbatim>\<open>ValueError\<close> for more than 4300 digits is not
  a \<^verbatim>\<open>JSONDecodeError\<close>; its message is kept up to the colon.
\<close>

definition json_integer_text :: "string \<Rightarrow> bool" where
  "json_integer_text s = (s \<noteq> [] \<and> list_all ascii_digit s \<and> (s = ''0'' \<or> take 1 s \<noteq> ''0''))"

definition example_json_load :: deserializer where
  \<open>example_json_load s =
     (if s = ''{"a": 1}'' then Inr (PyDict [(PyStr ''a'', PyInt 1)])
      else if json_integer_text s then
        (case int_str s of
           Some n \<Rightarrow> Inr (PyInt n)
         | None \<Rightarrow> Inl (ValueError ''Exceeds the limit (4300 digits) for integer string conversion''))
      else Inl JSONDecodeError)\<close>

definition example_safe_load :: deserializer where
  "example_safe_load s =
     (if s = ''a: 1'' then Inr (PyDict [(PyStr ''a'', PyInt 1)]) else Inl YAMLError)"

definition example_fs :: filesystem where
  \<open>example_fs =
     [''api.json'' \<mapsto> RegularFile ''{"a": 1}'',
      ''bad.json'' \<mapsto> RegularFile ''{'',
      ''api.yaml'' \<mapsto> RegularFile ''a: 1'',
      ''bad.yaml'' \<mapsto> RegularFile ''a: ['',
      ''notes.txt'' \<mapsto> RegularFile ''hello'',
      ''count.json'' \<mapsto> RegularFile ''12'',
      ''big.json'' \<mapsto> RegularFile (replicate 5000 CHR ''1''),
      ''locked.json'' \<mapsto> Unreadable PermissionError,
      ''specs'' \<mapsto> Directory]\<close>

subsection \<open>The port range of the specification\<close>

text \<open>The range that the specification gives for the port of a parsed server URL.\<close>

definition spec_port_in_range :: "int \<Rightarrow> bool" where
  "spec_port_in_range port = (1 \<le> port \<and> port \<le> 65535)"

text \<open>
  The port of a network location by the URL rules that the specification names
  (\<^verbatim>\<open>scheme://[host[:port]][/path]\<close>), split as \<^verbatim>\<open>urllib.parse\<close> splits it for its own
  \<^verbatim>\<open>port\<close> attribute: user information ends at the last \<^verbatim>\<open>@\<close>, an address in brackets
  is one host, and the port is the text after the colon that follows the host. The empty
  text says that the URL has no port.
\<close>

definition spec_netloc_port :: "string \<Rightarrow> string" where
  "spec_netloc_port nl =
     (let hostinfo = rev (takeWhile (\<lambda>c. c \<noteq> CHR ''@'') (rev nl))
      in if CHR ''['' \<in> set hostinfo
         then after_first CHR '':'' (after_first CHR '']'' (after_first CHR ''['' hostinfo))
         else after_first CHR '':'' hostinfo)"

subsection \<open>The trailing separator of the specification\<close>

text \<open>The specification's words for a composed URL: it ends with exactly one \<^verbatim>\<open>/\<close>.\<close>

definition spec_single_trailing_slash :: "string \<Rightarrow> bool" where
  "spec_single_trailing_slash url = (endswith_slash url \<and> \<not> endswith_slash (butlast url))"

subsection \<open>What a regular expression matches\<close>

text \<open>
  The texts that a pattern matches in full, against which the matcher \<open>re_match\<close> is
  verified below.
\<close>

definition conc :: "string set \<Rightarrow> string set \<Rightarrow> string set" where
  "conc A B = {u @ v | u v. u \<in> A \<and> v \<in> B}"

inductive_set star :: "string set \<Rightarrow> string set" for A :: "string set" where
  star_empty: "[] \<in> star A"
| star_more: "u \<in> A \<Longrightarrow> v \<in> star A \<Longrightarrow> u @ v \<in> star A"

fun lang :: "regex \<Rightarrow> string set" where
  "lang Fail = {}"
| "lang Eps = {[]}"
| "lang (Sym items) = {[c] | c. list_ex (\<lambda>i. item_matches i c) items}"
| "lang (Cat r s) = conc (lang r) (lang s)"
| "lang (Or r s) = lang r \<union> lang s"
| "lang (Many r) = star (lang r)"

subsection \<open>The host shapes of the specification\<close>

text \<open>
  The specification's two shapes of a host: a hostname text, a non-empty run of the
  characters \<^verbatim>\<open>a\<close> to \<^verbatim>\<open>z\<close>, dot and hyphen; and a dotted-decimal text, four groups of
  one to three digits separated by dots.
\<close>

definition spec_hostname_text :: "string \<Rightarrow> bool" where
  "spec_hostname_text host =
     (host \<noteq> [] \<and> list_all (\<lambda>c. ascii_lower c \<or> c = CHR ''.'' \<or> c = CHR ''-'') host)"

definition spec_digit_group :: "string \<Rightarrow> bool" where
  "spec_digit_group d = (1 \<le> length d \<and> length d \<le> 3 \<and> list_all ascii_digit d)"

definition spec_ipv4_shaped :: "string \<Rightarrow> bool" where
  "spec_ipv4_shaped host =
     (\<exists>a b c d. host = a @ ''.'' @ b @ ''.'' @ c @ ''.'' @ d
        \<and> spec_digit_group a \<and> spec_digit_group b \<and> spec_digit_group c \<and> spec_digit_group d)"

section \<open>Properties\<close>

subsection \<open>Splitting and indexing\<close>

lemma split_on_nonempty: "split_on sep s \<noteq> []"
  by (induction s) (auto split: list.splits)

lemma split_on_append:
  "split_on sep (a @ sep # b) = split_on sep a @ split_on sep b"
proof (induction a)
  case Nil
  show ?case by simp
next
  case (Cons x a)
  obtain w ws where w: "split_on sep a = w # ws"
    using split_on_nonempty [of sep a] by (cases "split_on sep a") auto
  show ?case using Cons w by simp
qed

lemma split_on_no_sep: "sep \<notin> set b \<Longrightarrow> split_on sep b = [b]"
  by (induction b) auto

lemma last_split_on_suffix:
  "sep \<notin> set b \<Longrightarrow> last (split_on sep (a @ sep # b)) = b"
  by (simp add: split_on_append split_on_no_sep)

lemma py_index_last: "xs \<noteq> [] \<Longrightarrow> py_index xs (- 1) = Inr (last xs)"
  by (cases xs rule: rev_cases) (auto simp: py_index_def nth_append)

lemma file_ext_suffix:
  "CHR ''.'' \<notin> set ext \<Longrightarrow> py_index (split_on CHR ''.'' (stem @ CHR ''.'' # ext)) (- 1) = Inr ext"
  by (simp add: py_index_last split_on_nonempty last_split_on_suffix)

lemma file_ext_no_dot:
  "CHR ''.'' \<notin> set p \<Longrightarrow> py_index (split_on CHR ''.'' p) (- 1) = Inr p"
  by (simp add: py_index_last split_on_no_sep)

lemma hd_split_on: "hd (split_on sep s) = before_first sep s"
  by (induction s) (auto simp: before_first_def split_on_nonempty split: list.splits)

lemma split_at_first:
  "sep \<in> set s \<Longrightarrow> s = before_first sep s @ sep # after_first sep s"
  unfolding before_first_def after_first_def
  by (induction s) auto

lemma before_first_no_sep: "sep \<notin> set (before_first sep s)"
  unfolding before_first_def by (induction s) auto

lemma split_on_first:
  assumes "sep \<in> set s"
  shows "split_on sep s = before_first sep s # split_on sep (after_first sep s)"
proof -
  have "split_on sep s = split_on sep (before_first sep s @ sep # after_first sep s)"
    using split_at_first [OF assms] by simp
  also have "\<dots> = split_on sep (before_first sep s) @ split_on sep (after_first sep s)"
    by (rule split_on_append)
  also have "split_on sep (before_first sep s) = [before_first sep s]"
    by (rule split_on_no_sep) (rule before_first_no_sep)
  finally show ?thesis by simp
qed

lemma tokens_0:
  "sep \<in> set s \<Longrightarrow> py_index (split_on sep s) 0 = Inr (before_first sep s)"
  by (simp add: split_on_first py_index_def)

lemma tokens_1:
  assumes "sep \<in> set s"
  shows "py_index (split_on sep s) 1 = Inr (before_first sep (after_first sep s))"
proof -
  obtain w ws where w: "split_on sep (after_first sep s) = w # ws"
    using split_on_nonempty [of sep "after_first sep s"]
    by (cases "split_on sep (after_first sep s)") auto
  have "w = before_first sep (after_first sep s)"
    using hd_split_on [of sep "after_first sep s"] w by simp
  then show ?thesis
    using w by (simp add: split_on_first [OF assms] py_index_def)
qed

lemma before_first_id: "sep \<notin> set s \<Longrightarrow> before_first sep s = s"
  unfolding before_first_def by (induction s) auto



subsection \<open>The specification document loader\<close>

text \<open>
  Claim C2, as amended. The load operation \<^verbatim>\<open>read_openapi_file\<close> asks \<^verbatim>\<open>isfile\<close> first:
  for the empty path it returns the record \<^verbatim>\<open>{"error": "File Not Found"}\<close> and does not
  raise. The record \<^verbatim>\<open>{"error": "ValueError, path cannot be of None type"}\<close> is what
  \<^verbatim>\<open>read_yaml\<close> returns when it is called directly with \<^verbatim>\<open>None\<close> or the empty path.
\<close>

theorem load_empty_path:
  "read_openapi_file fs json_load safe_load (Some []) = Inr (error_record ''File Not Found'')
   \<and> read_yaml fs safe_load (Some []) =
       Inr (error_record ''ValueError, path cannot be of None type'')
   \<and> read_yaml fs safe_load None =
       Inr (error_record ''ValueError, path cannot be of None type'')"
  by (simp add: read_openapi_file_def read_yaml_def isfile_def)

text \<open>
  The guard of \<^verbatim>\<open>read_yaml\<close> is not reached from \<^verbatim>\<open>read_openapi_file\<close> with \<^verbatim>\<open>None\<close>: the
  call of \<^verbatim>\<open>isfile\<close> comes first and raises.
\<close>

lemma load_None_path:
  "read_openapi_file fs json_load safe_load None =
     Inl (TypeError ''stat: path should be string, bytes, os.PathLike or integer, not NoneType'')"
  by (simp add: read_openapi_file_def isfile_def)

text \<open>
  Claim C2 as stated fails at the empty path: the load returns the record for a missing
  file, not the record for a missing path.
\<close>

theorem load_empty_path_counterexample:
  "read_openapi_file example_fs example_json_load example_safe_load (Some []) \<noteq>
     Inr (error_record ''ValueError, path cannot be of None type'')"
  by (simp add: read_openapi_file_def isfile_def error_record_def)

text \<open>
  Claim C5. For every path the load asks \<^verbatim>\<open>isfile\<close> first, and a path that is not an
  existing regular file gives \<^verbatim>\<open>{"error": "File Not Found"}\<close> whatever its extension. For
  an existing file the text after the final dot decides: \<^verbatim>\<open>json\<close> gives the call of
  \<^verbatim>\<open>read_json\<close>, \<^verbatim>\<open>yaml\<close> the call of \<^verbatim>\<open>read_yaml\<close>, and anything else the record
  \<^verbatim>\<open>{"error": "Invalid file extension"}\<close>, a value in which the content of the file does
  not occur. A path with no dot is compared as a whole, since \<^verbatim>\<open>split\<close> then returns it
  as its only piece.
\<close>

theorem load_checks_existence_then_extension:
  "(isfile fs (Some p) = Inr False \<longrightarrow>
      read_openapi_file fs json_load safe_load (Some p) = Inr (error_record ''File Not Found''))
   \<and> (isfile fs (Some p) = Inr True \<and> p = stem @ CHR ''.'' # ext \<and> CHR ''.'' \<notin> set ext \<longrightarrow>
      read_openapi_file fs json_load safe_load (Some p) =
        (if ext = ''json'' then read_json fs json_load (Some p)
         else if ext = ''yaml'' then read_yaml fs safe_load (Some p)
         else Inr (error_record ''Invalid file extension'')))
   \<and> (isfile fs (Some p) = Inr True \<and> CHR ''.'' \<notin> set p \<longrightarrow>
      read_openapi_file fs json_load safe_load (Some p) =
        (if p = ''json'' then read_json fs json_load (Some p)
         else if p = ''yaml'' then read_yaml fs safe_load (Some p)
         else Inr (error_record ''Invalid file extension'')))"
  by (auto simp: read_openapi_file_def file_ext_suffix file_ext_no_dot)

theorem load_checks_existence_then_extension_witness:
  "isfile example_fs (Some ''missing.yaml'') = Inr False
   \<and> read_openapi_file example_fs example_json_load example_safe_load (Some ''missing.yaml'') =
       Inr (error_record ''File Not Found'')
   \<and> isfile example_fs (Some ''notes.txt'') = Inr True
   \<and> read_openapi_file example_fs example_json_load example_safe_load (Some ''notes.txt'') =
       Inr (error_record ''Invalid file extension'')
   \<and> isfile example_fs (Some ''api.json'') = Inr True
   \<and> read_openapi_file example_fs example_json_load example_safe_load (Some ''api.json'') =
       read_json example_fs example_json_load (Some ''api.json'')"
proof -
  have f1: "isfile example_fs (Some ''missing.yaml'') = Inr False"
    by (simp add: isfile_def example_fs_def)
  have f2: "isfile example_fs (Some ''notes.txt'') = Inr True"
    by (simp add: isfile_def example_fs_def)
  have f3: "isfile example_fs (Some ''api.json'') = Inr True"
    by (simp add: isfile_def example_fs_def)
  show ?thesis
    using f1 f2 f3
      load_checks_existence_then_extension [where fs = example_fs and p = "''missing.yaml''"
        and json_load = example_json_load and safe_load = example_safe_load
        and stem = "''missing''" and ext = "''yaml''"]
      load_checks_existence_then_extension [where fs = example_fs and p = "''notes.txt''"
        and json_load = example_json_load and safe_load = example_safe_load
        and stem = "''notes''" and ext = "''txt''"]
      load_checks_existence_then_extension [where fs = example_fs and p = "''api.json''"
        and json_load = example_json_load and safe_load = example_safe_load
        and stem = "''api''" and ext = "''json''"]
    by simp
qed

text \<open>
  The example document of 5000 digits: \<^verbatim>\<open>int\<close> refuses it, and so does the example
  deserializer, with a \<^verbatim>\<open>ValueError\<close>.
\<close>

lemma int_str_long_ones:
  assumes "int_max_str_digits < n"
  shows "int_str (replicate n CHR ''1'') = None"
proof -
  have sp: "\<not> int_space CHR ''1''"
    by (simp add: int_space_def code_def)
  have strip: "rev (dropWhile int_space (rev (dropWhile int_space (replicate n CHR ''1'')))) =
      replicate n CHR ''1''"
    by (simp add: sp)
  have n: "0 < n" using assms by simp
  then obtain m where m: "n = Suc m" by (cases n) auto
  have sign: "take 1 (replicate n CHR ''1'') = ''1''"
    by (simp add: m)
  have len: "length (filter (\<lambda>c. c \<noteq> CHR ''_'') (replicate n CHR ''1'')) = n"
    by simp
  show ?thesis
    unfolding int_str_def strip Let_def sign len using assms by simp
qed

lemma json_integer_text_ones: "0 < n \<Longrightarrow> json_integer_text (replicate n CHR ''1'')"
  by (cases n) (auto simp: json_integer_text_def ascii_digit_def code_def list_all_iff)

lemma example_json_load_big:
  "example_json_load (replicate 5000 CHR ''1'') =
     Inl (ValueError ''Exceeds the limit (4300 digits) for integer string conversion'')"
proof -
  have ne: \<open>replicate 5000 CHR ''1'' \<noteq> ''{"a": 1}''\<close>
  proof
    assume \<open>replicate 5000 CHR ''1'' = ''{"a": 1}''\<close>
    then have \<open>length (replicate 5000 CHR ''1'') = length ''{"a": 1}''\<close>
      by (rule arg_cong)
    then show False by simp
  qed
  have digits: "json_integer_text (replicate 5000 CHR ''1'')"
    by (rule json_integer_text_ones) simp
  have big: "int_str (replicate 5000 CHR ''1'') = None"
    by (rule int_str_long_ones) (simp add: int_max_str_digits_def)
  show ?thesis
    unfolding example_json_load_def using ne digits big by simp
qed

text \<open>
  Claim C6, as amended. For an existing file named \<^verbatim>\<open>*.json\<close> or \<^verbatim>\<open>*.yaml\<close> whose text can
  be read, the load is decided by what the deserializer does with the text: a value it
  returns is returned unchanged; its decode error (\<^verbatim>\<open>JSONDecodeError\<close>, \<^verbatim>\<open>YAMLError\<close>)
  becomes \<^verbatim>\<open>{"error": "JSON error"}\<close> or \<^verbatim>\<open>{"error": "YAML error"}\<close>; any other exception
  it raises propagates out of the load. The exception of a file that cannot be opened or
  decoded propagates as well. A missing file and an existing file with another extension
  give their error records, and the load does not raise for them.
\<close>

theorem load_document_outcomes:
  "(fs (stem @ ''.json'') = Some (RegularFile content) \<longrightarrow>
      read_openapi_file fs json_load safe_load (Some (stem @ ''.json'')) =
        (case json_load content of
           Inr v \<Rightarrow> Inr v
         | Inl JSONDecodeError \<Rightarrow> Inr (error_record ''JSON error'')
         | Inl e \<Rightarrow> Inl e))
   \<and> (fs (stem @ ''.yaml'') = Some (RegularFile content) \<longrightarrow>
      read_openapi_file fs json_load safe_load (Some (stem @ ''.yaml'')) =
        (case safe_load content of
           Inr v \<Rightarrow> Inr v
         | Inl YAMLError \<Rightarrow> Inr (error_record ''YAML error'')
         | Inl e \<Rightarrow> Inl e))
   \<and> ((ext = ''json'' \<or> ext = ''yaml'') \<and> fs (stem @ CHR ''.'' # ext) = Some (Unreadable io) \<longrightarrow>
      read_openapi_file fs json_load safe_load (Some (stem @ CHR ''.'' # ext)) = Inl (IOError io))
   \<and> (isfile fs (Some p) = Inr False \<longrightarrow>
      read_openapi_file fs json_load safe_load (Some p) = Inr (error_record ''File Not Found''))
   \<and> (isfile fs (Some (stem @ CHR ''.'' # ext)) = Inr True \<and> CHR ''.'' \<notin> set ext
        \<and> ext \<noteq> ''json'' \<and> ext \<noteq> ''yaml'' \<longrightarrow>
      read_openapi_file fs json_load safe_load (Some (stem @ CHR ''.'' # ext)) =
        Inr (error_record ''Invalid file extension''))"
proof -
  have ext_json: "py_index (split_on CHR ''.'' (stem @ ''.json'')) (- 1) = Inr ''json''"
    using file_ext_suffix [of "''json''" stem] by simp
  have ext_yaml: "py_index (split_on CHR ''.'' (stem @ ''.yaml'')) (- 1) = Inr ''yaml''"
    using file_ext_suffix [of "''yaml''" stem] by simp
  have json: "fs (stem @ ''.json'') = Some (RegularFile content) \<Longrightarrow>
      read_openapi_file fs json_load safe_load (Some (stem @ ''.json'')) =
        (case json_load content of
           Inr v \<Rightarrow> Inr v
         | Inl JSONDecodeError \<Rightarrow> Inr (error_record ''JSON error'')
         | Inl e \<Rightarrow> Inl e)"
    by (simp add: read_openapi_file_def read_json_def isfile_def open_read_def ext_json
          split: sum.splits error.splits)
  have yaml: "fs (stem @ ''.yaml'') = Some (RegularFile content) \<Longrightarrow>
      read_openapi_file fs json_load safe_load (Some (stem @ ''.yaml'')) =
        (case safe_load content of
           Inr v \<Rightarrow> Inr v
         | Inl YAMLError \<Rightarrow> Inr (error_record ''YAML error'')
         | Inl e \<Rightarrow> Inl e)"
    by (simp add: read_openapi_file_def read_yaml_def isfile_def open_read_def ext_yaml
          split: sum.splits error.splits)
  have locked_json: "fs (stem @ ''.json'') = Some (Unreadable io) \<Longrightarrow>
      read_openapi_file fs json_load safe_load (Some (stem @ ''.json'')) = Inl (IOError io)"
    by (simp add: read_openapi_file_def read_json_def isfile_def open_read_def ext_json)
  have locked_yaml: "fs (stem @ ''.yaml'') = Some (Unreadable io) \<Longrightarrow>
      read_openapi_file fs json_load safe_load (Some (stem @ ''.yaml'')) = Inl (IOError io)"
    by (simp add: read_openapi_file_def read_yaml_def isfile_def open_read_def ext_yaml)
  have locked: "(ext = ''json'' \<or> ext = ''yaml'') \<and> fs (stem @ CHR ''.'' # ext) = Some (Unreadable io) \<longrightarrow>
      read_openapi_file fs json_load safe_load (Some (stem @ CHR ''.'' # ext)) = Inl (IOError io)"
    using locked_json locked_yaml by auto
  have missing: "isfile fs (Some p) = Inr False \<Longrightarrow>
      read_openapi_file fs json_load safe_load (Some p) = Inr (error_record ''File Not Found'')"
    by (simp add: read_openapi_file_def)
  have other: "isfile fs (Some (stem @ CHR ''.'' # ext)) = Inr True \<Longrightarrow> CHR ''.'' \<notin> set ext
        \<Longrightarrow> ext \<noteq> ''json'' \<Longrightarrow> ext \<noteq> ''yaml'' \<Longrightarrow>
      read_openapi_file fs json_load safe_load (Some (stem @ CHR ''.'' # ext)) =
        Inr (error_record ''Invalid file extension'')"
    by (simp add: read_openapi_file_def file_ext_suffix)
  show ?thesis
    using json yaml locked missing other by blast
qed

theorem load_document_outcomes_witness:
  \<open>example_fs ''api.json'' = Some (RegularFile ''{"a": 1}'')
   \<and> read_openapi_file example_fs example_json_load example_safe_load (Some ''api.json'') =
       Inr (PyDict [(PyStr ''a'', PyInt 1)])
   \<and> example_fs ''bad.json'' = Some (RegularFile ''{'')
   \<and> read_openapi_file example_fs example_json_load example_safe_load (Some ''bad.json'') =
       Inr (error_record ''JSON error'')
   \<and> example_fs ''big.json'' = Some (RegularFile (replicate 5000 CHR ''1''))
   \<and> read_openapi_file example_fs example_json_load example_safe_load (Some ''big.json'') =
       Inl (ValueError ''Exceeds the limit (4300 digits) for integer string conversion'')
   \<and> example_fs ''bad.yaml'' = Some (RegularFile ''a: ['')
   \<and> read_openapi_file example_fs example_json_load example_safe_load (Some ''bad.yaml'') =
       Inr (error_record ''YAML error'')
   \<and> example_fs ''locked.json'' = Some (Unreadable PermissionError)
   \<and> read_openapi_file example_fs example_json_load example_safe_load (Some ''locked.json'') =
       Inl (IOError PermissionError)
   \<and> isfile example_fs (Some ''none.json'') = Inr False
   \<and> read_openapi_file example_fs example_json_load example_safe_load (Some ''none.json'') =
       Inr (error_record ''File Not Found'')
   \<and> isfile example_fs (Some ''notes.txt'') = Inr True
   \<and> read_openapi_file example_fs example_json_load example_safe_load (Some ''notes.txt'') =
       Inr (error_record ''Invalid file extension'')\<close>
proof -
  have f1: \<open>example_fs ''api.json'' = Some (RegularFile ''{"a": 1}'')\<close>
    by (simp add: example_fs_def)
  have l1: \<open>example_json_load ''{"a": 1}'' = Inr (PyDict [(PyStr ''a'', PyInt 1)])\<close>
    by (simp add: example_json_load_def)
  have f2: "example_fs ''bad.json'' = Some (RegularFile ''{'')"
    by (simp add: example_fs_def)
  have l2: "example_json_load ''{'' = Inl JSONDecodeError"
    by (simp add: example_json_load_def json_integer_text_def ascii_digit_def code_def)
  have f3: "example_fs ''big.json'' = Some (RegularFile (replicate 5000 CHR ''1''))"
    by (simp add: example_fs_def)
  have f4: "example_fs ''bad.yaml'' = Some (RegularFile ''a: ['')"
    by (simp add: example_fs_def)
  have l4: "example_safe_load ''a: ['' = Inl YAMLError"
    by (simp add: example_safe_load_def)
  have f5: "example_fs ''locked.json'' = Some (Unreadable PermissionError)"
    by (simp add: example_fs_def)
  have f6: "isfile example_fs (Some ''none.json'') = Inr False"
    by (simp add: isfile_def example_fs_def)
  have f7: "isfile example_fs (Some ''notes.txt'') = Inr True"
    by (simp add: isfile_def example_fs_def)
  note inst = load_document_outcomes [where fs = example_fs and json_load = example_json_load
      and safe_load = example_safe_load and p = "''none.json''"]
  show ?thesis
    using f1 l1 f2 l2 f3 example_json_load_big f4 l4 f5 f6 f7
      inst [where stem = "''api''" and content = \<open>''{"a": 1}''\<close> and ext = "''json''"
        and io = PermissionError]
      inst [where stem = "''bad''" and content = "''{''" and ext = "''json''"
        and io = PermissionError]
      inst [where stem = "''big''" and content = "replicate 5000 CHR ''1''" and ext = "''json''"
        and io = PermissionError]
      inst [where stem = "''bad''" and content = "''a: [''" and ext = "''json''"
        and io = PermissionError]
      inst [where stem = "''locked''" and content = "''{''" and ext = "''json''"
        and io = PermissionError]
      inst [where stem = "''notes''" and content = "''{''" and ext = "''txt''"
        and io = PermissionError]
    by simp
qed

text \<open>
  Claim C6 as stated fails: the file \<^verbatim>\<open>big.json\<close> exists and holds one JSON integer of
  5000 digits, a valid document, and the load raises the \<^verbatim>\<open>ValueError\<close> of \<^verbatim>\<open>int\<close>,
  which the handler for \<^verbatim>\<open>JSONDecodeError\<close> in \<^verbatim>\<open>read_json\<close> does not catch.
\<close>

theorem load_existing_document_counterexample:
  "example_fs ''big.json'' = Some (RegularFile (replicate 5000 CHR ''1''))
   \<and> json_integer_text (replicate 5000 CHR ''1'')
   \<and> read_openapi_file example_fs example_json_load example_safe_load (Some ''big.json'') =
       Inl (ValueError ''Exceeds the limit (4300 digits) for integer string conversion'')"
proof -
  have stored: "example_fs ''big.json'' = Some (RegularFile (replicate 5000 CHR ''1''))"
    by (simp add: example_fs_def)
  have digits: "json_integer_text (replicate 5000 CHR ''1'')"
    by (rule json_integer_text_ones) simp
  have "read_openapi_file example_fs example_json_load example_safe_load (Some ''big.json'') =
       Inl (ValueError ''Exceeds the limit (4300 digits) for integer string conversion'')"
    by (simp add: read_openapi_file_def read_json_def isfile_def open_read_def py_index_def
          stored example_json_load_big)
  then show ?thesis
    using stored digits by simp
qed

subsection \<open>The server URL parser\<close>

text \<open>
  \<^verbatim>\<open>parse_server_url\<close> in closed form: the host is the text before the first colon of the
  network location (all of it when there is no colon), and the port comes from the text
  between the first colon and the next one.
\<close>

lemma parse_server_url_eq:
  "parse_server_url url =
     (case urlparse url [] of
        Inl e \<Rightarrow> Inl e
      | Inr p \<Rightarrow>
          if scheme p \<noteq> ''http'' \<and> scheme p \<noteq> ''https''
          then Inl (ValueError ''only http and https schemes are allowed'')
          else Inr (scheme p, before_first CHR '':'' (netloc p),
                    (if CHR '':'' \<in> set (netloc p)
                     then (case int_str (before_first CHR '':'' (after_first CHR '':'' (netloc p))) of
                             Some n \<Rightarrow> n
                           | None \<Rightarrow> if scheme p = ''https'' then 443 else 80)
                     else if scheme p = ''https'' then 443 else 80),
                    path p))"
  by (auto simp: parse_server_url_def tokens_0 tokens_1 before_first_id Let_def
           split: sum.splits option.splits)

text \<open>
  Claim C1, as amended. When \<^verbatim>\<open>parse_server_url\<close> returns, the scheme is \<^verbatim>\<open>http\<close> or
  \<^verbatim>\<open>https\<close> and the port is an integer: the default of the scheme (80 for \<^verbatim>\<open>http\<close>, 443
  for \<^verbatim>\<open>https\<close>) when the network location has no colon or when \<^verbatim>\<open>int\<close> refuses the
  token after the first colon, and otherwise the value of that token as \<^verbatim>\<open>int\<close> reads
  it. No range is imposed on that value.
\<close>

theorem parse_server_url_port:
  "parse_server_url url = Inr (sch, host, port, basepath) \<Longrightarrow>
     (sch = ''http'' \<or> sch = ''https'')
     \<and> (\<exists>p. urlparse url [] = Inr p
            \<and> (CHR '':'' \<notin> set (netloc p) \<longrightarrow> port = (if sch = ''https'' then 443 else 80))
            \<and> (\<forall>token. CHR '':'' \<in> set (netloc p)
                   \<and> py_index (split_on CHR '':'' (netloc p)) 1 = Inr token \<longrightarrow>
                   port = (case int_str token of
                             Some n \<Rightarrow> n
                           | None \<Rightarrow> if sch = ''https'' then 443 else 80)))"
  by (auto simp: parse_server_url_eq tokens_1 split: sum.splits if_splits option.splits)

theorem parse_server_url_port_witness:
  "parse_server_url ''http://example.com:70000'' = Inr (''http'', ''example.com'', 70000, [])
   \<and> urlparse ''http://example.com:70000'' [] =
       Inr \<lparr>scheme = ''http'', netloc = ''example.com:70000'', path = [], params = [],
            query = [], fragment = []\<rparr>
   \<and> py_index (split_on CHR '':'' ''example.com:70000'') 1 = Inr ''70000''
   \<and> int_str ''70000'' = Some 70000"
proof -
  have run: "parse_server_url ''http://example.com:70000'' = Inr (''http'', ''example.com'', 70000, [])"
    by code_simp
  have parsed: "urlparse ''http://example.com:70000'' [] =
       Inr \<lparr>scheme = ''http'', netloc = ''example.com:70000'', path = [], params = [],
            query = [], fragment = []\<rparr>"
    by code_simp
  have tok: "py_index (split_on CHR '':'' ''example.com:70000'') 1 = Inr ''70000''"
    by code_simp
  have val: "int_str ''70000'' = Some 70000"
    by code_simp
  show ?thesis
    using parse_server_url_port [OF run] run parsed tok val by simp
qed

text \<open>
  Claim C1 as stated fails: the URL \<^verbatim>\<open>http://example.com:70000\<close> is accepted and the port
  returned is 70000, outside 1 to 65535.
\<close>

theorem parse_server_url_port_counterexample:
  "parse_server_url ''http://example.com:70000'' = Inr (''http'', ''example.com'', 70000, [])
   \<and> \<not> spec_port_in_range 70000"
proof -
  have "parse_server_url ''http://example.com:70000'' = Inr (''http'', ''example.com'', 70000, [])"
    by code_simp
  then show ?thesis by (simp add: spec_port_in_range_def)
qed

text \<open>
  Claim C3, as amended. An exception of \<^verbatim>\<open>urlparse\<close> propagates. When \<^verbatim>\<open>urlparse\<close> returns,
  \<^verbatim>\<open>parse_server_url\<close> raises if and only if the scheme parsed is neither \<^verbatim>\<open>http\<close> nor
  \<^verbatim>\<open>https\<close>, with the \<^verbatim>\<open>ValueError\<close> of the scheme check, and otherwise returns a tuple
  of the scheme, a host, a port and the path. \<^verbatim>\<open>ftp://example.com\<close> fails with that
  \<^verbatim>\<open>ValueError\<close>.
\<close>

theorem parse_server_url_raises:
  "(urlparse url [] = Inl e \<longrightarrow> parse_server_url url = Inl e)
   \<and> (urlparse url [] = Inr p \<longrightarrow>
        (if scheme p = ''http'' \<or> scheme p = ''https''
         then \<exists>host port. parse_server_url url = Inr (scheme p, host, port, path p)
         else parse_server_url url = Inl (ValueError ''only http and https schemes are allowed'')))
   \<and> parse_server_url ''ftp://example.com'' =
        Inl (ValueError ''only http and https schemes are allowed'')"
proof -
  have ftp: "parse_server_url ''ftp://example.com'' =
        Inl (ValueError ''only http and https schemes are allowed'')"
    by code_simp
  show ?thesis
    using ftp by (auto simp: parse_server_url_eq)
qed

theorem parse_server_url_raises_witness:
  "urlparse ''ftp://example.com'' [] =
       Inr \<lparr>scheme = ''ftp'', netloc = ''example.com'', path = [], params = [],
            query = [], fragment = []\<rparr>
   \<and> parse_server_url ''ftp://example.com'' =
        Inl (ValueError ''only http and https schemes are allowed'')
   \<and> urlparse ''http://['' [] = Inl (ValueError ''Invalid IPv6 URL'')
   \<and> parse_server_url ''http://['' = Inl (ValueError ''Invalid IPv6 URL'')
   \<and> urlparse ''https://api.example.com/v1'' [] =
       Inr \<lparr>scheme = ''https'', netloc = ''api.example.com'', path = ''/v1'', params = [],
            query = [], fragment = []\<rparr>
   \<and> (\<exists>host port. parse_server_url ''https://api.example.com/v1'' =
         Inr (''https'', host, port, ''/v1''))"
proof -
  have p1: "urlparse ''ftp://example.com'' [] =
       Inr \<lparr>scheme = ''ftp'', netloc = ''example.com'', path = [], params = [],
            query = [], fragment = []\<rparr>"
    by code_simp
  have p2: "urlparse ''http://['' [] = Inl (ValueError ''Invalid IPv6 URL'')"
    by code_simp
  have p3: "urlparse ''https://api.example.com/v1'' [] =
       Inr \<lparr>scheme = ''https'', netloc = ''api.example.com'', path = ''/v1'', params = [],
            query = [], fragment = []\<rparr>"
    by code_simp
  show ?thesis
    using p1 p2 p3
      parse_server_url_raises [of "''ftp://example.com''" "ValueError ''Invalid IPv6 URL''"
        "\<lparr>scheme = ''ftp'', netloc = ''example.com'', path = [], params = [],
            query = [], fragment = []\<rparr>"]
      parse_server_url_raises [of "''http://[''" "ValueError ''Invalid IPv6 URL''"
        "\<lparr>scheme = ''ftp'', netloc = ''example.com'', path = [], params = [],
            query = [], fragment = []\<rparr>"]
      parse_server_url_raises [of "''https://api.example.com/v1''" "ValueError ''Invalid IPv6 URL''"
        "\<lparr>scheme = ''https'', netloc = ''api.example.com'', path = ''/v1'', params = [],
            query = [], fragment = []\<rparr>"]
    by simp
qed

text \<open>
  Claim C3 as stated fails: \<^verbatim>\<open>http://[\<close> has the scheme \<^verbatim>\<open>http\<close>, and the call raises the
  \<^verbatim>\<open>ValueError\<close> of \<^verbatim>\<open>urlsplit\<close> for a bracket that is not closed.
\<close>

theorem parse_server_url_raises_counterexample:
  "parse_server_url ''http://['' = Inl (ValueError ''Invalid IPv6 URL'')"
  by code_simp

text \<open>
  Claim C4, as amended. For a URL that \<^verbatim>\<open>urlparse\<close> accepts with the scheme \<^verbatim>\<open>http\<close> or
  \<^verbatim>\<open>https\<close>: when the network location has no colon, or when \<^verbatim>\<open>int\<close> refuses the token
  after its first colon, \<^verbatim>\<open>parse_server_url\<close> returns, and the port is 443 for \<^verbatim>\<open>https\<close>
  and 80 for \<^verbatim>\<open>http\<close>. The two examples of the specification evaluate as it says.
\<close>

theorem parse_server_url_default_port:
  "(urlparse url [] = Inr p \<and> (scheme p = ''http'' \<or> scheme p = ''https'')
      \<and> (CHR '':'' \<notin> set (netloc p)
          \<or> (\<exists>token. py_index (split_on CHR '':'' (netloc p)) 1 = Inr token
                \<and> int_str token = None)) \<longrightarrow>
      (\<exists>host. parse_server_url url =
         Inr (scheme p, host, if scheme p = ''https'' then 443 else 80, path p)))
   \<and> parse_server_url ''https://api.example.com/v1'' =
        Inr (''https'', ''api.example.com'', 443, ''/v1'')
   \<and> parse_server_url ''http://api.example.com:8080'' =
        Inr (''http'', ''api.example.com'', 8080, [])"
proof -
  have e1: "parse_server_url ''https://api.example.com/v1'' =
        Inr (''https'', ''api.example.com'', 443, ''/v1'')"
    by code_simp
  have e2: "parse_server_url ''http://api.example.com:8080'' =
        Inr (''http'', ''api.example.com'', 8080, [])"
    by code_simp
  have gen: "urlparse url [] = Inr p \<Longrightarrow> scheme p = ''http'' \<or> scheme p = ''https''
      \<Longrightarrow> CHR '':'' \<notin> set (netloc p)
          \<or> (\<exists>token. py_index (split_on CHR '':'' (netloc p)) 1 = Inr token
                \<and> int_str token = None)
      \<Longrightarrow> \<exists>host. parse_server_url url =
         Inr (scheme p, host, if scheme p = ''https'' then 443 else 80, path p)"
    by (cases "CHR '':'' \<in> set (netloc p)")
       (auto simp: parse_server_url_eq tokens_1 split: option.splits)
  show ?thesis
    using e1 e2 gen by blast
qed

theorem parse_server_url_default_port_witness:
  "urlparse ''https://api.example.com:8o80/v1'' [] =
       Inr \<lparr>scheme = ''https'', netloc = ''api.example.com:8o80'', path = ''/v1'', params = [],
            query = [], fragment = []\<rparr>
   \<and> py_index (split_on CHR '':'' ''api.example.com:8o80'') 1 = Inr ''8o80''
   \<and> int_str ''8o80'' = None
   \<and> (\<exists>host. parse_server_url ''https://api.example.com:8o80/v1'' =
         Inr (''https'', host, 443, ''/v1''))"
proof -
  have parsed: "urlparse ''https://api.example.com:8o80/v1'' [] =
       Inr \<lparr>scheme = ''https'', netloc = ''api.example.com:8o80'', path = ''/v1'', params = [],
            query = [], fragment = []\<rparr>"
    by code_simp
  have tok: "py_index (split_on CHR '':'' ''api.example.com:8o80'') 1 = Inr ''8o80''"
    by code_simp
  have val: "int_str ''8o80'' = None"
    by code_simp
  show ?thesis
    using parsed tok val
      parse_server_url_default_port [of "''https://api.example.com:8o80/v1''"
        "\<lparr>scheme = ''https'', netloc = ''api.example.com:8o80'', path = ''/v1'', params = [],
            query = [], fragment = []\<rparr>"]
    by simp
qed

text \<open>
  Claim C4 as stated fails: \<^verbatim>\<open>http://[2001:4860::8888]/\<close> has no port, and the port
  returned is 4860, the token after the first colon of the bracketed address, not the
  default 80.
\<close>

theorem parse_server_url_default_port_counterexample:
  "urlparse ''http://[2001:4860::8888]/'' [] =
       Inr \<lparr>scheme = ''http'', netloc = ''[2001:4860::8888]'', path = ''/'', params = [],
            query = [], fragment = []\<rparr>
   \<and> spec_netloc_port ''[2001:4860::8888]'' = []
   \<and> parse_server_url ''http://[2001:4860::8888]/'' = Inr (''http'', ''[2001'', 4860, ''/'')"
  by code_simp



subsection \<open>The URI composer\<close>

text \<open>One more segment at the end is one more \<^verbatim>\<open>urljoin\<close> on the result so far.\<close>

lemma join_loop_snoc:
  "join_loop remove_prefix url (uris @ [uri]) =
     (case join_loop remove_prefix url uris of
        Inl e \<Rightarrow> Inl e
      | Inr running \<Rightarrow>
          urljoin (if endswith_slash running then running else running @ ''/'')
                  (removeprefix remove_prefix uri))"
proof (induction uris arbitrary: url)
  case Nil
  show ?case by (simp split: sum.splits)
next
  case (Cons u uris)
  show ?case by (simp add: Cons.IH split: sum.splits)
qed

text \<open>
  Claim C7, as amended. With the default prefix \<^verbatim>\<open>/\<close>, joining \<^verbatim>\<open>https://example.com\<close>,
  \<^verbatim>\<open>/v2/\<close> and \<^verbatim>\<open>/pet/findByStatus/\<close> gives \<^verbatim>\<open>https://example.com/v2/pet/findByStatus/\<close>,
  and every running URL of this call ends with exactly one \<^verbatim>\<open>/\<close>. The segments are taken
  from left to right: the last segment has one leading occurrence of the prefix removed
  and is resolved by \<^verbatim>\<open>urljoin\<close> against the result of joining the arguments before it,
  to which \<^verbatim>\<open>/\<close> is appended when it does not end with one. The resolution is that of
  relative URLs: dot segments are resolved, a segment that still begins with \<^verbatim>\<open>/\<close>
  replaces the path, and an absolute URL replaces the running URL.
\<close>

theorem join_uri_path_resolution:
  "join_uri_path [''https://example.com'', ''/v2/'', ''/pet/findByStatus/''] ''/'' =
     Inr ''https://example.com/v2/pet/findByStatus/''
   \<and> join_uri_path [''https://example.com''] ''/'' = Inr ''https://example.com/''
   \<and> spec_single_trailing_slash ''https://example.com/''
   \<and> join_uri_path [''https://example.com'', ''/v2/''] ''/'' = Inr ''https://example.com/v2/''
   \<and> spec_single_trailing_slash ''https://example.com/v2/''
   \<and> spec_single_trailing_slash ''https://example.com/v2/pet/findByStatus/''
   \<and> (args \<noteq> [] \<longrightarrow>
        join_uri_path (args @ [uri]) remove_prefix =
          (case join_uri_path args remove_prefix of
             Inl e \<Rightarrow> Inl e
           | Inr running \<Rightarrow>
               urljoin (if endswith_slash running then running else running @ ''/'')
                       (removeprefix remove_prefix uri)))
   \<and> removeprefix remove_prefix (remove_prefix @ uri) = uri
   \<and> join_uri_path [''https://example.com/v1'', ''/../v2/''] ''/'' = Inr ''https://example.com/v2/''
   \<and> join_uri_path [''https://example.com/a/b'', ''//v2''] ''/'' = Inr ''https://example.com/v2''
   \<and> join_uri_path [''https://example.com'', ''https://other.org/x''] ''/'' =
       Inr ''https://other.org/x''"
proof -
  have ex: "join_uri_path [''https://example.com'', ''/v2/'', ''/pet/findByStatus/''] ''/'' =
     Inr ''https://example.com/v2/pet/findByStatus/''"
    by code_simp
  have r0: "join_uri_path [''https://example.com''] ''/'' = Inr ''https://example.com/''"
    by code_simp
  have s0: "spec_single_trailing_slash ''https://example.com/''"
    by code_simp
  have r1: "join_uri_path [''https://example.com'', ''/v2/''] ''/'' = Inr ''https://example.com/v2/''"
    by code_simp
  have s1: "spec_single_trailing_slash ''https://example.com/v2/''"
    by code_simp
  have s2: "spec_single_trailing_slash ''https://example.com/v2/pet/findByStatus/''"
    by code_simp
  have step: "join_uri_path (args @ [uri]) remove_prefix =
          (case join_uri_path args remove_prefix of
             Inl e \<Rightarrow> Inl e
           | Inr running \<Rightarrow>
               urljoin (if endswith_slash running then running else running @ ''/'')
                       (removeprefix remove_prefix uri))" if nonempty: "args \<noteq> []"
  proof -
    obtain a others where a: "args = a # others"
      using nonempty by (cases args) auto
    show ?thesis
      unfolding a join_uri_path_def
      by (simp add: tuple_index_def join_loop_snoc)
  qed
  have strip: "removeprefix remove_prefix (remove_prefix @ uri) = uri"
    by (simp add: removeprefix_def)
  have dots: "join_uri_path [''https://example.com/v1'', ''/../v2/''] ''/'' =
      Inr ''https://example.com/v2/''"
    by code_simp
  have root: "join_uri_path [''https://example.com/a/b'', ''//v2''] ''/'' =
      Inr ''https://example.com/v2''"
    by code_simp
  have absolute: "join_uri_path [''https://example.com'', ''https://other.org/x''] ''/'' =
       Inr ''https://other.org/x''"
    by code_simp
  show ?thesis
    using ex r0 s0 r1 s1 s2 step strip dots root absolute by blast
qed

theorem join_uri_path_resolution_witness:
  "[''https://example.com'', ''/v2/''] \<noteq> []
   \<and> join_uri_path [''https://example.com'', ''/v2/''] ''/'' = Inr ''https://example.com/v2/''
   \<and> removeprefix ''/'' ''/pet/findByStatus/'' = ''pet/findByStatus/''
   \<and> join_uri_path ([''https://example.com'', ''/v2/''] @ [''/pet/findByStatus/'']) ''/'' =
       urljoin ''https://example.com/v2/'' ''pet/findByStatus/''
   \<and> urljoin ''https://example.com/v2/'' ''pet/findByStatus/'' =
       Inr ''https://example.com/v2/pet/findByStatus/''"
proof -
  have first: "join_uri_path [''https://example.com'', ''/v2/''] ''/'' = Inr ''https://example.com/v2/''"
    by code_simp
  have strip: "removeprefix ''/'' ''/pet/findByStatus/'' = ''pet/findByStatus/''"
    by code_simp
  have slash: "endswith_slash ''https://example.com/v2/''"
    by code_simp
  have last: "urljoin ''https://example.com/v2/'' ''pet/findByStatus/'' =
       Inr ''https://example.com/v2/pet/findByStatus/''"
    by code_simp
  show ?thesis
    using first strip slash last
      join_uri_path_resolution [of "[''https://example.com'', ''/v2/'']" "''/pet/findByStatus/''" "''/''"]
    by simp
qed

text \<open>
  Claim C7 as stated fails in its general part: the running URL is not kept ending in a
  single \<^verbatim>\<open>/\<close>. The segment \<^verbatim>\<open>//v2//\<close> leaves \<^verbatim>\<open>https://example.com/v2//\<close>.
\<close>

theorem join_uri_path_resolution_counterexample:
  "join_uri_path [''https://example.com'', ''//v2//''] ''/'' = Inr ''https://example.com/v2//''
   \<and> \<not> spec_single_trailing_slash ''https://example.com/v2//''"
  by code_simp

text \<open>
  Claim C8, as amended. With no extra segment \<^verbatim>\<open>join_uri_path\<close> returns the base itself
  when it ends with \<^verbatim>\<open>/\<close> and the base followed by \<^verbatim>\<open>/\<close> otherwise. The result ends
  with \<^verbatim>\<open>/\<close>, and joining the result again returns it unchanged.
\<close>

theorem join_uri_path_single:
  "join_uri_path [base] remove_prefix = Inr (if endswith_slash base then base else base @ ''/'')
   \<and> endswith_slash (if endswith_slash base then base else base @ ''/'')
   \<and> join_uri_path [if endswith_slash base then base else base @ ''/''] remove_prefix =
       Inr (if endswith_slash base then base else base @ ''/'')"
  by (simp add: join_uri_path_def tuple_index_def endswith_slash_def)

text \<open>
  Claim C8 as stated fails for a base that ends with two separators: it is returned as it
  is, and does not end with exactly one \<^verbatim>\<open>/\<close>.
\<close>

theorem join_uri_path_single_counterexample:
  "join_uri_path [''https://example.com//''] ''/'' = Inr ''https://example.com//''
   \<and> \<not> spec_single_trailing_slash ''https://example.com//''"
  by code_simp

subsection \<open>The URL validator\<close>

text \<open>The matcher by derivatives finds a match exactly when some prefix is in the language.\<close>

lemma conc_iff: "w \<in> conc A B \<longleftrightarrow> (\<exists>u v. w = u @ v \<and> u \<in> A \<and> v \<in> B)"
  by (auto simp: conc_def)

lemma star_cons:
  "c # w \<in> star A \<longleftrightarrow> (\<exists>u v. w = u @ v \<and> c # u \<in> A \<and> v \<in> star A)"
proof
  have "x \<in> star A \<Longrightarrow> x = c # w \<Longrightarrow> \<exists>u v. w = u @ v \<and> c # u \<in> A \<and> v \<in> star A" for x
  proof (induction x rule: star.induct)
    case star_empty
    then show ?case by simp
  next
    case (star_more u v)
    show ?case
    proof (cases u)
      case Nil
      then show ?thesis using star_more by simp
    next
      case (Cons a u')
      then have "a = c" and "w = u' @ v" using star_more.prems by auto
      then show ?thesis using star_more.hyps Cons by blast
    qed
  qed
  then show "c # w \<in> star A \<Longrightarrow> \<exists>u v. w = u @ v \<and> c # u \<in> A \<and> v \<in> star A"
    by blast
next
  assume "\<exists>u v. w = u @ v \<and> c # u \<in> A \<and> v \<in> star A"
  then obtain u v where w: "w = u @ v" and u: "c # u \<in> A" and v: "v \<in> star A"
    by blast
  have "(c # u) @ v \<in> star A"
    using u v by (rule star.star_more)
  then show "c # w \<in> star A"
    using w by simp
qed

lemma nullable_lang: "nullable r \<longleftrightarrow> [] \<in> lang r"
  by (induction r) (auto simp: conc_iff star.star_empty)

lemma conc_cons:
  "c # w \<in> conc A B \<longleftrightarrow>
     (\<exists>u v. w = u @ v \<and> c # u \<in> A \<and> v \<in> B) \<or> ([] \<in> A \<and> c # w \<in> B)"
  by (auto simp: conc_iff append_eq_Cons_conv Cons_eq_append_conv)

lemma deriv_lang: "w \<in> lang (deriv c r) \<longleftrightarrow> c # w \<in> lang r"
proof (induction r arbitrary: w)
  case (Cat r s)
  show ?case
    by (simp add: conc_cons nullable_lang Cat.IH) (auto simp: conc_iff Cat.IH)
next
  case (Many r)
  show ?case
    by (simp add: star_cons) (auto simp: conc_iff Many.IH)
qed auto

lemma re_match_lang: "re_match r s \<longleftrightarrow> (\<exists>u v. s = u @ v \<and> u \<in> lang r)"
proof (induction s arbitrary: r)
  case Nil
  show ?case by (simp add: nullable_lang)
next
  case (Cons c s)
  show ?case
    by (auto simp: Cons.IH nullable_lang deriv_lang Cons_eq_append_conv)
qed

text \<open>The languages of the pieces of the pattern.\<close>

lemma concI: "u \<in> A \<Longrightarrow> v \<in> B \<Longrightarrow> u @ v \<in> conc A B"
  by (auto simp: conc_def)

lemma conc_lit: "w \<in> conc {s} B \<longleftrightarrow> (\<exists>v. w = s @ v \<and> v \<in> B)"
  by (auto simp: conc_def)

lemma lang_Lit: "lang (Lit s) = {s}"
  by (induction s) (auto simp: conc_def)

lemma lang_Opt: "lang (Opt r) = lang r \<union> {[]}"
  by (simp add: Opt_def)

lemma lang_Plus: "lang (Plus r) = conc (lang r) (star (lang r))"
  by (simp add: Plus_def)

lemma lang_host_char_set:
  "w \<in> lang host_char_set \<longleftrightarrow> (\<exists>c. w = [c] \<and> (ascii_lower c \<or> c = CHR ''.'' \<or> c = CHR ''-''))"
  by (auto simp: host_char_set_def ascii_lower_def code_def)

lemma digit_group_cases:
  "spec_digit_group d \<longleftrightarrow>
      (\<exists>a. d = [a] \<and> ascii_digit a) \<or> (\<exists>a b. d = [a, b] \<and> ascii_digit a \<and> ascii_digit b)
      \<or> (\<exists>a b c. d = [a, b, c] \<and> ascii_digit a \<and> ascii_digit b \<and> ascii_digit c)"
proof (cases d)
  case Nil
  then show ?thesis by (simp add: spec_digit_group_def)
next
  case d1: (Cons a d')
  show ?thesis
  proof (cases d')
    case Nil
    then show ?thesis using d1 by (simp add: spec_digit_group_def)
  next
    case d2: (Cons b d'')
    show ?thesis
    proof (cases d'')
      case Nil
      then show ?thesis using d1 d2 by (simp add: spec_digit_group_def)
    next
      case d3: (Cons c d''')
      show ?thesis using d1 d2 d3 by (cases d''') (auto simp: spec_digit_group_def)
    qed
  qed
qed

lemma conc_eps: "conc A {[]} = A"
  by (auto simp: conc_def)

lemma conc_singles:
  "w \<in> conc {[c] | c. P c} B \<longleftrightarrow> (\<exists>c v. w = c # v \<and> P c \<and> v \<in> B)"
proof
  assume "w \<in> conc {[c] | c. P c} B"
  then show "\<exists>c v. w = c # v \<and> P c \<and> v \<in> B"
    by (auto simp: conc_def)
next
  assume "\<exists>c v. w = c # v \<and> P c \<and> v \<in> B"
  then obtain c v where w: "w = [c] @ v" and c: "[c] \<in> {[c] | c. P c}" and v: "v \<in> B"
    by auto
  show "w \<in> conc {[c] | c. P c} B"
    unfolding w using c v by (rule concI)
qed

lemma lang_digits_1_3: "d \<in> lang digits_1_3 \<longleftrightarrow> spec_digit_group d"
proof -
  have "lang digits_1_3 =
      conc {[c] | c. ascii_digit c}
        (conc {[c] | c. ascii_digit c} (conc {[c] | c. ascii_digit c} {[]} \<union> {[]}) \<union> {[]})"
    unfolding digits_1_3_def between_def
    by (simp add: numeral_2_eq_2 numeral_3_eq_3 Opt_def conc_eps)
  then have "d \<in> lang digits_1_3 \<longleftrightarrow>
      (\<exists>a v. d = a # v \<and> ascii_digit a
         \<and> (v = [] \<or> (\<exists>b v'. v = b # v' \<and> ascii_digit b
                        \<and> (v' = [] \<or> (\<exists>c. v' = [c] \<and> ascii_digit c)))))"
    by (simp add: conc_singles)
  also have "\<dots> \<longleftrightarrow> spec_digit_group d"
    unfolding digit_group_cases by blast
  finally show ?thesis .
qed

lemma dotted_quad_forward:
  assumes "h \<in> lang dotted_quad"
  shows "spec_ipv4_shaped h"
proof -
  have h: "h \<in> conc (lang digits_1_3) (conc {''.''} (conc (lang digits_1_3) (conc {''.''}
             (conc (lang digits_1_3) (conc {''.''} (lang digits_1_3))))))"
    using assms by (simp only: dotted_quad_def lang.simps lang_Lit)
  obtain a r1 where 1: "h = a @ r1" "a \<in> lang digits_1_3"
      "r1 \<in> conc {''.''} (conc (lang digits_1_3) (conc {''.''}
             (conc (lang digits_1_3) (conc {''.''} (lang digits_1_3)))))"
    using h unfolding conc_iff [of h] by blast
  obtain r2 where 2: "r1 = ''.'' @ r2"
      "r2 \<in> conc (lang digits_1_3) (conc {''.''}
             (conc (lang digits_1_3) (conc {''.''} (lang digits_1_3))))"
    using 1(3) unfolding conc_lit [of r1] by blast
  obtain b r3 where 3: "r2 = b @ r3" "b \<in> lang digits_1_3"
      "r3 \<in> conc {''.''} (conc (lang digits_1_3) (conc {''.''} (lang digits_1_3)))"
    using 2(2) unfolding conc_iff [of r2] by blast
  obtain r4 where 4: "r3 = ''.'' @ r4"
      "r4 \<in> conc (lang digits_1_3) (conc {''.''} (lang digits_1_3))"
    using 3(3) unfolding conc_lit [of r3] by blast
  obtain c r5 where 5: "r4 = c @ r5" "c \<in> lang digits_1_3"
      "r5 \<in> conc {''.''} (lang digits_1_3)"
    using 4(2) unfolding conc_iff [of r4] by blast
  obtain d where 6: "r5 = ''.'' @ d" "d \<in> lang digits_1_3"
    using 5(3) unfolding conc_lit [of r5] by blast
  have "h = a @ ''.'' @ b @ ''.'' @ c @ ''.'' @ d"
    using 1(1) 2(1) 3(1) 4(1) 5(1) 6(1) by simp
  then show ?thesis
    unfolding spec_ipv4_shaped_def
    using 1(2) 3(2) 5(2) 6(2) lang_digits_1_3 by blast
qed

lemma dotted_quad_backward:
  assumes "spec_ipv4_shaped h"
  shows "h \<in> lang dotted_quad"
proof -
  obtain a b c d where h: "h = a @ ''.'' @ b @ ''.'' @ c @ ''.'' @ d"
    and g: "a \<in> lang digits_1_3" "b \<in> lang digits_1_3" "c \<in> lang digits_1_3"
      "d \<in> lang digits_1_3"
    using assms unfolding spec_ipv4_shaped_def lang_digits_1_3 by blast
  have dot: "''.'' \<in> lang (Lit ''.'')"
    unfolding lang_Lit by simp
  have "a @ ''.'' @ b @ ''.'' @ c @ ''.'' @ d \<in> lang dotted_quad"
    unfolding dotted_quad_def lang.simps
    by (intro concI g dot)
  then show ?thesis
    using h by simp
qed

lemma host_piece:
  "g \<in> lang (Or host_char_set dotted_quad) \<longleftrightarrow>
     (\<exists>c. g = [c] \<and> (ascii_lower c \<or> c = CHR ''.'' \<or> c = CHR ''-'')) \<or> spec_ipv4_shaped g"
  using dotted_quad_forward dotted_quad_backward by (auto simp: lang_host_char_set)

lemma url_regex_forward:
  assumes "u \<in> lang url_regex"
  shows "\<exists>sch g t. u = sch @ ''://'' @ g @ t \<and> (sch = ''http'' \<or> sch = ''https'')
           \<and> g \<in> lang (Or host_char_set dotted_quad)"
proof -
  let ?G = "lang (Or host_char_set dotted_quad)"
  let ?T = "lang (Cat (Opt (Cat (Lit '':'') (Plus (Sym [DecimalDigit])))) (Many (Sym [Dot])))"
  have u: "u \<in> conc {''http''} (conc ({''s''} \<union> {[]}) (conc {''://''}
             (conc (conc ?G (star ?G)) ?T)))"
    using assms unfolding url_regex_def
    by (simp only: lang.simps lang_Lit lang_Opt lang_Plus)
  obtain r1 where 1: "u = ''http'' @ r1"
      "r1 \<in> conc ({''s''} \<union> {[]}) (conc {''://''} (conc (conc ?G (star ?G)) ?T))"
    using u unfolding conc_lit [of u] by blast
  obtain s r2 where 2: "r1 = s @ r2" "s = ''s'' \<or> s = []"
      "r2 \<in> conc {''://''} (conc (conc ?G (star ?G)) ?T)"
    using 1(2) unfolding conc_iff [of r1] by blast
  obtain r3 where 3: "r2 = ''://'' @ r3" "r3 \<in> conc (conc ?G (star ?G)) ?T"
    using 2(3) unfolding conc_lit [of r2] by blast
  obtain gs t where 4: "r3 = gs @ t" "gs \<in> conc ?G (star ?G)"
    using 3(2) unfolding conc_iff [of r3] by blast
  obtain g more_g where 5: "gs = g @ more_g" "g \<in> ?G"
    using 4(2) unfolding conc_iff [of gs] by blast
  have "u = (''http'' @ s) @ ''://'' @ g @ (more_g @ t)"
    using 1(1) 2(1) 3(1) 4(1) 5(1) by simp
  moreover have "''http'' @ s = ''http'' \<or> ''http'' @ s = ''https''"
    using 2(2) by auto
  ultimately show ?thesis
    using 5(2) by blast
qed

lemma url_regex_backward:
  assumes sch: "sch = ''http'' \<or> sch = ''https''"
    and g: "g \<in> lang (Or host_char_set dotted_quad)"
  shows "sch @ ''://'' @ g \<in> lang url_regex"
proof -
  let ?G = "lang (Or host_char_set dotted_quad)"
  let ?T = "lang (Cat (Opt (Cat (Lit '':'') (Plus (Sym [DecimalDigit])))) (Many (Sym [Dot])))"
  obtain s where s: "sch = ''http'' @ s" "s \<in> {''s''} \<union> {[]}"
    using sch by auto
  have http: "''http'' \<in> {''http''}" and sep: "''://'' \<in> {''://''}"
    by simp_all
  have none: "[] \<in> star ?G"
    by (rule star.star_empty)
  have tail: "[] \<in> ?T"
    by (simp add: lang_Opt conc_iff star.star_empty)
  have "''http'' @ s @ ''://'' @ (g @ []) @ [] \<in>
      conc {''http''} (conc ({''s''} \<union> {[]}) (conc {''://''} (conc (conc ?G (star ?G)) ?T)))"
    by (intro concI http s(2) sep g none tail)
  then have "''http'' @ s @ ''://'' @ (g @ []) @ [] \<in> lang url_regex"
    unfolding url_regex_def
    by (simp only: lang.simps lang_Lit lang_Opt lang_Plus)
  then show ?thesis
    using s(1) by simp
qed

text \<open>
  Claim C9. \<^verbatim>\<open>is_valid_url\<close> is a function of its argument alone, and it returns
  \<^verbatim>\<open>True\<close> exactly for the strings that begin with \<^verbatim>\<open>http\<close> or \<^verbatim>\<open>https\<close>, then \<^verbatim>\<open>://\<close>,
  then a host that is a hostname text or a dotted-decimal text; whatever follows the host,
  a port and a path among it, is not constrained. \<^verbatim>\<open>http://10.0.0.1:9090/x\<close> is valid and
  \<^verbatim>\<open>not a url\<close> is not.
\<close>

theorem is_valid_url_shape:
  "(is_valid_url url \<longleftrightarrow>
      (\<exists>sch host rest. url = sch @ ''://'' @ host @ rest
         \<and> (sch = ''http'' \<or> sch = ''https'')
         \<and> (spec_hostname_text host \<or> spec_ipv4_shaped host)))
   \<and> is_valid_url ''http://10.0.0.1:9090/x''
   \<and> \<not> is_valid_url ''not a url''"
proof -
  have yes: "is_valid_url ''http://10.0.0.1:9090/x''"
    by code_simp
  have no: "\<not> is_valid_url ''not a url''"
    by code_simp
  have forward: "\<exists>sch host rest. url = sch @ ''://'' @ host @ rest
         \<and> (sch = ''http'' \<or> sch = ''https'')
         \<and> (spec_hostname_text host \<or> spec_ipv4_shaped host)" if valid: "is_valid_url url"
  proof -
    obtain u v where url: "url = u @ v" and u: "u \<in> lang url_regex"
      using valid by (auto simp: is_valid_url_def re_match_lang)
    obtain sch g t where ug: "u = sch @ ''://'' @ g @ t"
      and sch: "sch = ''http'' \<or> sch = ''https''"
      and g: "g \<in> lang (Or host_char_set dotted_quad)"
      using url_regex_forward [OF u] by blast
    have "spec_hostname_text g \<or> spec_ipv4_shaped g"
      using g unfolding host_piece by (auto simp: spec_hostname_text_def)
    moreover have "url = sch @ ''://'' @ g @ (t @ v)"
      using url ug by simp
    ultimately show ?thesis
      using sch by blast
  qed
  have backward: "is_valid_url url"
    if shape: "url = sch @ ''://'' @ host @ rest" and sch: "sch = ''http'' \<or> sch = ''https''"
      and host: "spec_hostname_text host \<or> spec_ipv4_shaped host" for sch host rest
  proof -
    have "\<exists>g r. host = g @ r \<and> g \<in> lang (Or host_char_set dotted_quad)"
    proof (cases "spec_ipv4_shaped host")
      case True
      then have "host = host @ [] \<and> host \<in> lang (Or host_char_set dotted_quad)"
        unfolding host_piece by simp
      then show ?thesis by blast
    next
      case False
      then have h: "spec_hostname_text host" using host by simp
      then obtain c r where cr: "host = c # r"
        by (cases host) (auto simp: spec_hostname_text_def)
      then have "ascii_lower c \<or> c = CHR ''.'' \<or> c = CHR ''-''"
        using h by (simp add: spec_hostname_text_def)
      then have "host = [c] @ r \<and> [c] \<in> lang (Or host_char_set dotted_quad)"
        unfolding host_piece using cr by simp
      then show ?thesis by blast
    qed
    then obtain g r where gr: "host = g @ r" and g: "g \<in> lang (Or host_char_set dotted_quad)"
      by blast
    have "sch @ ''://'' @ g \<in> lang url_regex"
      using sch g by (rule url_regex_backward)
    moreover have "url = (sch @ ''://'' @ g) @ (r @ rest)"
      using shape gr by simp
    ultimately show ?thesis
      unfolding is_valid_url_def re_match_lang by blast
  qed
  show ?thesis
    using yes no forward backward by blast
qed

theorem is_valid_url_shape_witness:
  "is_valid_url ''https://api.example.com/v1''
   \<and> ''https://api.example.com/v1'' = ''https'' @ ''://'' @ ''api.example.com'' @ ''/v1''
   \<and> spec_hostname_text ''api.example.com''
   \<and> is_valid_url ''http://10.0.0.1:9090/x''
   \<and> ''http://10.0.0.1:9090/x'' = ''http'' @ ''://'' @ ''10.0.0.1'' @ '':9090/x''
   \<and> spec_ipv4_shaped ''10.0.0.1''"
proof -
  have host: "spec_hostname_text ''api.example.com''"
    by code_simp
  have "''10.0.0.1'' = ''10'' @ ''.'' @ ''0'' @ ''.'' @ ''0'' @ ''.'' @ ''1''
      \<and> spec_digit_group ''10'' \<and> spec_digit_group ''0'' \<and> spec_digit_group ''0''
      \<and> spec_digit_group ''1''"
    by (simp add: spec_digit_group_def ascii_digit_def code_def)
  then have quad: "spec_ipv4_shaped ''10.0.0.1''"
    unfolding spec_ipv4_shaped_def by blast
  have ex1: "\<exists>sch host rest. ''https://api.example.com/v1'' = sch @ ''://'' @ host @ rest
         \<and> (sch = ''http'' \<or> sch = ''https'')
         \<and> (spec_hostname_text host \<or> spec_ipv4_shaped host)"
    using host
    by (intro exI [of _ "''https''"] exI [of _ "''api.example.com''"] exI [of _ "''/v1''"]) simp
  have ex2: "\<exists>sch host rest. ''http://10.0.0.1:9090/x'' = sch @ ''://'' @ host @ rest
         \<and> (sch = ''http'' \<or> sch = ''https'')
         \<and> (spec_hostname_text host \<or> spec_ipv4_shaped host)"
    using quad
    by (intro exI [of _ "''http''"] exI [of _ "''10.0.0.1''"] exI [of _ "'':9090/x''"]) simp
  show ?thesis
    using host quad ex1 ex2
      is_valid_url_shape [of "''https://api.example.com/v1''"]
      is_valid_url_shape [of "''http://10.0.0.1:9090/x''"]
    by simp
qed

end
